theory Spec2Isabelle
  imports Main
begin

section \<open>The job-status polling loops of the two notebooks\<close>

text \<open>
  Both notebooks submit an asynchronous job and then poll a describe call until the job is
  done, sleeping 60 seconds between polls:
  \<^item> \<^verbatim>\<open>autopilot/sagemaker_autopilot_abalone_parquet_input.ipynb\<close> (Python) polls
    \<^verbatim>\<open>client.describe_auto_ml_job\<close>;
  \<^item> \<^verbatim>\<open>r_examples/r_xgboost_hpo_batch_transform/r_xgboost_hpo_batch_transform.ipynb\<close> (R)
    polls \<^verbatim>\<open>sm$describe_hyper_parameter_tuning_job\<close>.

  The describe call is the only contact with the outside world. It is modelled as a client
  that answers the \<open>k\<close>-th call (counted from \<open>0\<close>) either with a response or by raising an
  error. Everything the loops do that can be observed from outside (calls of the client,
  sleeps, printed lines) is appended to a trace of events, in program order.

  The loops have no bound of their own, so they are given fuel: the number of loop
  iterations the run may still start. A run that wants to start an iteration without fuel
  left ends in \<open>Polling\<close>, which carries the response and the trace reached so far; a run
  that leaves the loop ends in \<open>Returned\<close>; an error raised by the client ends the run in
  \<open>Raised\<close>.
\<close>

subsection \<open>Events, clients, outcomes\<close>

datatype query_error = StatusQueryError string

datatype cat_arg = Str string | Num int

datatype event =
    Query string
  | Sleep nat
  | Print string
  | Cat "cat_arg list"
  | Message

type_synonym 'r client = "nat \<Rightarrow> query_error + 'r"

datatype 'r outcome =
    Returned 'r "event list"
  | Raised query_error "event list"
  | Polling 'r "event list"

fun is_query :: "event \<Rightarrow> bool" where
  "is_query (Query job) = True"
| "is_query e = False"

fun is_sleep :: "event \<Rightarrow> bool" where
  "is_sleep (Sleep secs) = True"
| "is_sleep e = False"

definition queries :: "event list \<Rightarrow> nat" where
  "queries tr = length (filter is_query tr)"

definition sleeps :: "event list \<Rightarrow> nat" where
  "sleeps tr = length (filter is_sleep tr)"

fun trace_of :: "'r outcome \<Rightarrow> event list" where
  "trace_of (Returned r tr) = tr"
| "trace_of (Raised e tr) = tr"
| "trace_of (Polling r tr) = tr"

text \<open>A client that answers every call with the same response, one that answers the
  \<open>k\<close>-th call with the \<open>k\<close>-th response of an endless sequence, and one that plays a finite
  script of answers and raises once the script is used up (a test double).\<close>

definition always :: "'r \<Rightarrow> 'r client" where
  "always r k = Inr r"

definition answers :: "(nat \<Rightarrow> 'r) \<Rightarrow> 'r client" where
  "answers snaps k = Inr (snaps k)"

definition script :: "(query_error + 'r) list \<Rightarrow> 'r client" where
  "script xs k = (if k < length xs then xs ! k else Inl (StatusQueryError ''script exhausted''))"

text \<open>The terminal values of the primary status as the specification lists them. The
  loops below do not use this set: each has its own condition.\<close>

definition spec_terminal :: "string \<Rightarrow> bool" where
  "spec_terminal st \<longleftrightarrow> st = ''Completed'' \<or> st = ''Failed'' \<or> st = ''Stopped''"

subsection \<open>The Python AutoML watcher\<close>

text \<open>
  \<^verbatim>\<open>
  response = client.describe_auto_ml_job(AutoMLJobName=job_name)
  status = response["AutoMLJobStatus"]
  secondary_status = response["AutoMLJobSecondaryStatus"]
  print(f"{status} - {secondary_status}")

  while status != "Completed" and secondary_status != "Failed":
      time.sleep(60)
      response = client.describe_auto_ml_job(AutoMLJobName=job_name)
      status = response["AutoMLJobStatus"]
      secondary_status = response["AutoMLJobSecondaryStatus"]
      print(f"{status} - {secondary_status}")
  \<close>
  The response is the record of the two members the loop reads; both are required members
  of the service's response. \<open>status\<close> and \<open>secondary_status\<close> are always the two fields of
  the latest \<open>response\<close>, so the loop state is the response and the trace.
\<close>

record automl_response =
  AutoMLJobStatus :: string
  AutoMLJobSecondaryStatus :: string

definition describe_auto_ml_job ::
  "automl_response client \<Rightarrow> string \<Rightarrow> event list \<Rightarrow> (query_error + automl_response) \<times> event list" where
  "describe_auto_ml_job client job_name tr = (client (queries tr), tr @ [Query job_name])"

definition print_status :: "automl_response \<Rightarrow> event" where
  "print_status response = Print (AutoMLJobStatus response @ '' - '' @ AutoMLJobSecondaryStatus response)"

definition py_continue :: "automl_response \<Rightarrow> bool" where
  "py_continue response \<longleftrightarrow>
     AutoMLJobStatus response \<noteq> ''Completed'' \<and> AutoMLJobSecondaryStatus response \<noteq> ''Failed''"

fun py_loop ::
  "nat \<Rightarrow> automl_response client \<Rightarrow> string \<Rightarrow> automl_response \<Rightarrow> event list \<Rightarrow> automl_response outcome" where
  "py_loop 0 client job_name response tr =
     (if py_continue response then Polling response tr else Returned response tr)"
| "py_loop (Suc fuel) client job_name response tr =
     (if py_continue response then
        (case describe_auto_ml_job client job_name (tr @ [Sleep 60]) of
           (Inl e, tr') \<Rightarrow> Raised e tr'
         | (Inr response', tr') \<Rightarrow> py_loop fuel client job_name response' (tr' @ [print_status response']))
      else Returned response tr)"

definition py_watch :: "nat \<Rightarrow> automl_response client \<Rightarrow> string \<Rightarrow> automl_response outcome" where
  "py_watch fuel client job_name =
     (case describe_auto_ml_job client job_name [] of
        (Inl e, tr) \<Rightarrow> Raised e tr
      | (Inr response, tr) \<Rightarrow> py_loop fuel client job_name response (tr @ [print_status response]))"

subsection \<open>The R tuning-job watcher\<close>

text \<open>
  \<^verbatim>\<open>
  status <- sm$describe_hyper_parameter_tuning_job(
      HyperParameterTuningJobName=tuner$latest_tuning_job$job_name)

  message(cat('Hyperparameter Tuning Job Name: ', job_name,'\n'))
  while (status$HyperParameterTuningJobStatus != "Completed") {
      message(cat('Hyperparameter Tuning Job Status: ', status$HyperParameterTuningJobStatus,'\n'))
      message(cat('Succeeded Models:', status$ObjectiveStatusCounters$Succeeded,
                  ' InProgress Models: ', status$ObjectiveStatusCounters$Pending,
                  ' Failed Models: ', status$ObjectiveStatusCounters$Failed, '\n'))
      Sys.sleep(60)
      status <- sm$describe_hyper_parameter_tuning_job(
      HyperParameterTuningJobName=tuner$latest_tuning_job$job_name)
  }
  \<close>
  \<open>cat\<close> writes its arguments and returns \<open>NULL\<close>, which \<open>message\<close> then reports as an empty
  line: each \<open>message(cat(...))\<close> is the event \<open>Cat\<close> with the arguments, followed by the
  event \<open>Message\<close>. The name the job is queried under (\<open>tuner$latest_tuning_job$job_name\<close>)
  and the printed variable \<open>job_name\<close> are two parameters.
\<close>

record objective_status_counters =
  Succeeded :: int
  Pending :: int
  Failed :: int

record tuning_response =
  HyperParameterTuningJobStatus :: string
  ObjectiveStatusCounters :: objective_status_counters

definition describe_hyper_parameter_tuning_job ::
  "tuning_response client \<Rightarrow> string \<Rightarrow> event list \<Rightarrow> (query_error + tuning_response) \<times> event list" where
  "describe_hyper_parameter_tuning_job sm tuning_job tr = (sm (queries tr), tr @ [Query tuning_job])"

definition message_name :: "string \<Rightarrow> event list" where
  "message_name job_name =
     [Cat [Str ''Hyperparameter Tuning Job Name: '', Str job_name, Str [CHR 0x0A]], Message]"

definition message_status :: "tuning_response \<Rightarrow> event list" where
  "message_status status =
     [Cat [Str ''Hyperparameter Tuning Job Status: '', Str (HyperParameterTuningJobStatus status),
           Str [CHR 0x0A]],
      Message,
      Cat [Str ''Succeeded Models:'', Num (Succeeded (ObjectiveStatusCounters status)),
           Str '' InProgress Models: '', Num (Pending (ObjectiveStatusCounters status)),
           Str '' Failed Models: '', Num (Failed (ObjectiveStatusCounters status)),
           Str [CHR 0x0A]],
      Message]"

definition r_continue :: "tuning_response \<Rightarrow> bool" where
  "r_continue status \<longleftrightarrow> HyperParameterTuningJobStatus status \<noteq> ''Completed''"

fun r_loop ::
  "nat \<Rightarrow> tuning_response client \<Rightarrow> string \<Rightarrow> tuning_response \<Rightarrow> event list \<Rightarrow> tuning_response outcome" where
  "r_loop 0 sm tuning_job status tr =
     (if r_continue status then Polling status tr else Returned status tr)"
| "r_loop (Suc fuel) sm tuning_job status tr =
     (if r_continue status then
        (case describe_hyper_parameter_tuning_job sm tuning_job
                (tr @ message_status status @ [Sleep 60]) of
           (Inl e, tr') \<Rightarrow> Raised e tr'
         | (Inr status', tr') \<Rightarrow> r_loop fuel sm tuning_job status' tr')
      else Returned status tr)"

definition r_watch ::
  "nat \<Rightarrow> tuning_response client \<Rightarrow> string \<Rightarrow> string \<Rightarrow> tuning_response outcome" where
  "r_watch fuel sm tuning_job job_name =
     (case describe_hyper_parameter_tuning_job sm tuning_job [] of
        (Inl e, tr) \<Rightarrow> Raised e tr
      | (Inr status, tr) \<Rightarrow> r_loop fuel sm tuning_job status (tr @ message_name job_name))"

subsection \<open>Expected traces and sample responses\<close>

text \<open>The trace a run of the Python watcher leaves after it has fetched the responses
  \<open>ss\<close>, one after the other: the first call and its printed line, then, for each later
  response, one sleep of 60 seconds, one call and one printed line.\<close>

definition py_body :: "string \<Rightarrow> automl_response \<Rightarrow> event list" where
  "py_body job_name response = [Sleep 60, Query job_name, print_status response]"

fun py_trace :: "string \<Rightarrow> automl_response list \<Rightarrow> event list" where
  "py_trace job_name [] = []"
| "py_trace job_name (s # ss) = [Query job_name, print_status s] @ concat (map (py_body job_name) ss)"

text \<open>The trace of the R watcher after the responses \<open>ss\<close>: the first call and the line
  with the job name, then, for each response but the last, its two status lines, one sleep
  of 60 seconds and the next call.\<close>

definition r_body :: "string \<Rightarrow> tuning_response \<Rightarrow> event list" where
  "r_body tuning_job status = message_status status @ [Sleep 60, Query tuning_job]"

definition r_trace :: "string \<Rightarrow> string \<Rightarrow> tuning_response list \<Rightarrow> event list" where
  "r_trace tuning_job job_name ss =
     [Query tuning_job] @ message_name job_name @ concat (map (r_body tuning_job) (butlast ss))"


text \<open>Sample responses.\<close>

definition automl :: "string \<Rightarrow> string \<Rightarrow> automl_response" where
  "automl st sec = \<lparr>AutoMLJobStatus = st, AutoMLJobSecondaryStatus = sec\<rparr>"

definition tuning :: "string \<Rightarrow> int \<Rightarrow> int \<Rightarrow> int \<Rightarrow> tuning_response" where
  "tuning st succeeded pending failed =
     \<lparr>HyperParameterTuningJobStatus = st,
      ObjectiveStatusCounters = \<lparr>Succeeded = succeeded, Pending = pending, Failed = failed\<rparr>\<rparr>"

text \<open>Two endless sequences of snapshots: a job that never changes, and a tuning job that
  is in progress for the first \<open>n\<close> calls and completed from then on.\<close>

definition steady :: "'r \<Rightarrow> nat \<Rightarrow> 'r" where
  "steady r k = r"

definition completes_at :: "nat \<Rightarrow> nat \<Rightarrow> tuning_response" where
  "completes_at n k = (if k < n then tuning ''InProgress'' (int k) (int (n - k)) 0 else tuning ''Completed'' (int n) 0 0)"

section \<open>Properties of the loops\<close>

subsection \<open>Counting events\<close>

lemma queries_Nil: "queries [] = 0"
  by (simp add: queries_def)

lemma queries_append: "queries (xs @ ys) = queries xs + queries ys"
  by (simp add: queries_def)

lemma queries_Cons: "queries (e # tr) = (if is_query e then Suc (queries tr) else queries tr)"
  by (simp add: queries_def)

lemma sleeps_Nil: "sleeps [] = 0"
  by (simp add: sleeps_def)

lemma sleeps_append: "sleeps (xs @ ys) = sleeps xs + sleeps ys"
  by (simp add: sleeps_def)

lemma sleeps_Cons: "sleeps (e # tr) = (if is_sleep e then Suc (sleeps tr) else sleeps tr)"
  by (simp add: sleeps_def)

lemmas count_simps = queries_Nil queries_append queries_Cons sleeps_Nil sleeps_append sleeps_Cons

lemma queries_py_body: "queries (py_body job_name s) = 1"
  by (simp add: py_body_def count_simps print_status_def)

lemma queries_concat_py_body: "queries (concat (map (py_body job_name) ss)) = length ss"
  by (induction ss) (simp_all add: count_simps queries_py_body)

lemma queries_py_trace: "queries (py_trace job_name ss) = length ss"
  by (cases ss) (simp_all add: count_simps queries_concat_py_body print_status_def)

lemma queries_message_status: "queries (message_status s) = 0"
  by (simp add: message_status_def count_simps)

lemma sleeps_message_status: "sleeps (message_status s) = 0"
  by (simp add: message_status_def count_simps)

lemma queries_message_name: "queries (message_name s) = 0"
  by (simp add: message_name_def count_simps)

lemma sleeps_message_name: "sleeps (message_name s) = 0"
  by (simp add: message_name_def count_simps)

lemma queries_r_body: "queries (r_body tuning_job s) = 1"
  by (simp add: r_body_def count_simps queries_message_status)

lemma sleeps_r_body: "sleeps (r_body tuning_job s) = 1"
  by (simp add: r_body_def count_simps sleeps_message_status)

lemma queries_concat_r_body: "queries (concat (map (r_body tuning_job) ss)) = length ss"
  by (induction ss) (simp_all add: count_simps queries_r_body)

lemma sleeps_concat_r_body: "sleeps (concat (map (r_body tuning_job) ss)) = length ss"
  by (induction ss) (simp_all add: count_simps sleeps_r_body)

lemma queries_r_trace: "ss \<noteq> [] \<Longrightarrow> queries (r_trace tuning_job job_name ss) = length ss"
  by (simp add: r_trace_def count_simps queries_concat_r_body queries_message_name)

lemma sleeps_r_trace: "sleeps (r_trace tuning_job job_name ss) = length ss - 1"
  by (simp add: r_trace_def count_simps sleeps_concat_r_body sleeps_message_name)


subsection \<open>Unfolding the Python loop\<close>

lemma py_loop_exit: "\<not> py_continue s \<Longrightarrow> py_loop fuel client job_name s tr = Returned s tr"
  by (cases fuel) simp_all

lemma py_loop_step:
  "py_continue s \<Longrightarrow> client (queries tr) = Inr x \<Longrightarrow>
   py_loop (Suc fuel) client job_name s tr = py_loop fuel client job_name x (tr @ py_body job_name x)"
  by (simp add: describe_auto_ml_job_def count_simps py_body_def)

lemma py_loop_raise:
  "py_continue s \<Longrightarrow> client (queries tr) = Inl e \<Longrightarrow>
   py_loop (Suc fuel) client job_name s tr = Raised e (tr @ [Sleep 60, Query job_name])"
  by (simp add: describe_auto_ml_job_def count_simps)

lemma py_loop_steps:
  "\<forall>i<length ss. client (queries tr + i) = Inr (ss ! i) \<Longrightarrow>
   \<forall>x\<in>set (butlast (s # ss)). py_continue x \<Longrightarrow>
   py_loop (length ss + fuel) client job_name s tr =
     py_loop fuel client job_name (last (s # ss)) (tr @ concat (map (py_body job_name) ss))"
proof (induction ss arbitrary: s tr)
  case Nil
  then show ?case by simp
next
  case (Cons x xs)
  have c: "py_continue s" using Cons.prems(2) by simp
  have q: "client (queries tr) = Inr x" using Cons.prems(1) by force
  let ?tr = "tr @ py_body job_name x"
  have "\<forall>i<length xs. client (queries ?tr + i) = Inr (xs ! i)"
  proof (intro allI impI)
    fix i assume "i < length xs"
    then have "client (queries tr + Suc i) = Inr ((x # xs) ! Suc i)"
      using Cons.prems(1) by (metis Suc_less_eq length_Cons)
    then show "client (queries ?tr + i) = Inr (xs ! i)"
      by (simp add: queries_append queries_py_body)
  qed
  moreover have "\<forall>y\<in>set (butlast (x # xs)). py_continue y"
    using Cons.prems(2) by (simp split: if_splits)
  ultimately have ih: "py_loop (length xs + fuel) client job_name x ?tr =
     py_loop fuel client job_name (last (x # xs)) (?tr @ concat (map (py_body job_name) xs))"
    by (rule Cons.IH)
  have "py_loop (length (x # xs) + fuel) client job_name s tr
        = py_loop (length xs + fuel) client job_name x ?tr"
    using py_loop_step [where client=client and tr=tr, OF c q] by simp
  with ih show ?case by simp
qed

lemma py_watch_first:
  "client 0 = Inr s \<Longrightarrow>
   py_watch fuel client job_name = py_loop fuel client job_name s [Query job_name, print_status s]"
  by (simp add: py_watch_def describe_auto_ml_job_def count_simps)

lemma py_watch_first_raise:
  "client 0 = Inl e \<Longrightarrow> py_watch fuel client job_name = Raised e [Query job_name]"
  by (simp add: py_watch_def describe_auto_ml_job_def count_simps)

lemma py_watch_steps:
  assumes "\<forall>i<length ss. client i = Inr (ss ! i)" and "ss \<noteq> []"
    and "\<forall>x\<in>set (butlast ss). py_continue x"
  shows "py_watch (length ss - 1 + fuel) client job_name =
           py_loop fuel client job_name (last ss) (py_trace job_name ss)"
proof -
  from assms(2) obtain s xs where ss: "ss = s # xs" by (cases ss) auto
  have first: "client 0 = Inr s" using assms(1) ss by force
  let ?tr = "[Query job_name, print_status s]"
  have qtr: "queries ?tr = 1" by (simp add: count_simps print_status_def)
  have "\<forall>i<length xs. client (queries ?tr + i) = Inr (xs ! i)"
  proof (intro allI impI)
    fix i assume "i < length xs"
    then have "client (Suc i) = Inr ((s # xs) ! Suc i)"
      using assms(1) ss by (metis Suc_less_eq length_Cons)
    then show "client (queries ?tr + i) = Inr (xs ! i)" using qtr by simp
  qed
  moreover have "\<forall>x\<in>set (butlast (s # xs)). py_continue x" using assms(3) ss by simp
  ultimately have "py_loop (length xs + fuel) client job_name s ?tr =
      py_loop fuel client job_name (last (s # xs)) (?tr @ concat (map (py_body job_name) xs))"
    by (rule py_loop_steps)
  then show ?thesis using py_watch_first [where client=client, OF first] ss by simp
qed


subsection \<open>Unfolding the R loop\<close>

lemma r_loop_exit: "\<not> r_continue s \<Longrightarrow> r_loop fuel sm tuning_job s tr = Returned s tr"
  by (cases fuel) simp_all

lemma r_loop_step:
  "r_continue s \<Longrightarrow> sm (queries tr) = Inr x \<Longrightarrow>
   r_loop (Suc fuel) sm tuning_job s tr = r_loop fuel sm tuning_job x (tr @ r_body tuning_job s)"
  by (simp add: describe_hyper_parameter_tuning_job_def count_simps r_body_def queries_message_status)

lemma r_loop_raise:
  "r_continue s \<Longrightarrow> sm (queries tr) = Inl e \<Longrightarrow>
   r_loop (Suc fuel) sm tuning_job s tr = Raised e (tr @ r_body tuning_job s)"
  by (simp add: describe_hyper_parameter_tuning_job_def count_simps r_body_def queries_message_status)

lemma r_loop_steps:
  "\<forall>i<length ss. sm (queries tr + i) = Inr (ss ! i) \<Longrightarrow>
   \<forall>x\<in>set (butlast (s # ss)). r_continue x \<Longrightarrow>
   r_loop (length ss + fuel) sm tuning_job s tr =
     r_loop fuel sm tuning_job (last (s # ss)) (tr @ concat (map (r_body tuning_job) (butlast (s # ss))))"
proof (induction ss arbitrary: s tr)
  case Nil
  then show ?case by simp
next
  case (Cons x xs)
  have c: "r_continue s" using Cons.prems(2) by simp
  have q: "sm (queries tr) = Inr x" using Cons.prems(1) by force
  let ?tr = "tr @ r_body tuning_job s"
  have "\<forall>i<length xs. sm (queries ?tr + i) = Inr (xs ! i)"
  proof (intro allI impI)
    fix i assume "i < length xs"
    then have "sm (queries tr + Suc i) = Inr ((x # xs) ! Suc i)"
      using Cons.prems(1) by (metis Suc_less_eq length_Cons)
    then show "sm (queries ?tr + i) = Inr (xs ! i)"
      by (simp add: queries_append queries_r_body)
  qed
  moreover have "\<forall>y\<in>set (butlast (x # xs)). r_continue y"
    using Cons.prems(2) by (simp split: if_splits)
  ultimately have ih: "r_loop (length xs + fuel) sm tuning_job x ?tr =
     r_loop fuel sm tuning_job (last (x # xs)) (?tr @ concat (map (r_body tuning_job) (butlast (x # xs))))"
    by (rule Cons.IH)
  have "r_loop (length (x # xs) + fuel) sm tuning_job s tr
        = r_loop (length xs + fuel) sm tuning_job x ?tr"
    using r_loop_step [where sm=sm and tr=tr, OF c q] by simp
  with ih show ?case by simp
qed

lemma r_watch_first:
  "sm 0 = Inr s \<Longrightarrow>
   r_watch fuel sm tuning_job job_name =
     r_loop fuel sm tuning_job s ([Query tuning_job] @ message_name job_name)"
  by (simp add: r_watch_def describe_hyper_parameter_tuning_job_def count_simps)

lemma r_watch_first_raise:
  "sm 0 = Inl e \<Longrightarrow> r_watch fuel sm tuning_job job_name = Raised e [Query tuning_job]"
  by (simp add: r_watch_def describe_hyper_parameter_tuning_job_def count_simps)

lemma r_watch_steps:
  assumes "\<forall>i<length ss. sm i = Inr (ss ! i)" and "ss \<noteq> []"
    and "\<forall>x\<in>set (butlast ss). r_continue x"
  shows "r_watch (length ss - 1 + fuel) sm tuning_job job_name =
           r_loop fuel sm tuning_job (last ss) (r_trace tuning_job job_name ss)"
proof -
  from assms(2) obtain s xs where ss: "ss = s # xs" by (cases ss) auto
  have first: "sm 0 = Inr s" using assms(1) ss by force
  let ?tr = "[Query tuning_job] @ message_name job_name"
  have qtr: "queries ?tr = 1" by (simp add: count_simps queries_message_name)
  have "\<forall>i<length xs. sm (queries ?tr + i) = Inr (xs ! i)"
  proof (intro allI impI)
    fix i assume "i < length xs"
    then have "sm (Suc i) = Inr ((s # xs) ! Suc i)"
      using assms(1) ss by (metis Suc_less_eq length_Cons)
    then show "sm (queries ?tr + i) = Inr (xs ! i)" using qtr by simp
  qed
  moreover have "\<forall>x\<in>set (butlast (s # xs)). r_continue x" using assms(3) ss by simp
  ultimately have "r_loop (length xs + fuel) sm tuning_job s ?tr =
      r_loop fuel sm tuning_job (last (s # xs)) (?tr @ concat (map (r_body tuning_job) (butlast (s # xs))))"
    by (rule r_loop_steps)
  then show ?thesis using r_watch_first [where sm=sm, OF first, of "length xs + fuel" tuning_job job_name] ss
    by (simp add: r_trace_def)
qed


subsection \<open>Scripted clients and the loop conditions\<close>

lemma script_map_Inr: "i < length ss \<Longrightarrow> script (map Inr ss) i = Inr (ss ! i)"
  by (simp add: script_def)

lemma py_exit_iff:
  "\<not> py_continue s \<longleftrightarrow> AutoMLJobStatus s = ''Completed'' \<or> AutoMLJobSecondaryStatus s = ''Failed''"
  by (auto simp add: py_continue_def)

lemma py_nonterminal_continue:
  "\<not> spec_terminal (AutoMLJobStatus s) \<Longrightarrow> AutoMLJobSecondaryStatus s \<noteq> ''Failed'' \<Longrightarrow> py_continue s"
  by (simp add: py_continue_def spec_terminal_def)

lemma r_nonterminal_continue:
  "\<not> spec_terminal (HyperParameterTuningJobStatus s) \<Longrightarrow> r_continue s"
  by (simp add: r_continue_def spec_terminal_def)

lemma script_map_Inr_append:
  "i < length ss \<Longrightarrow> script (map Inr ss @ xs) i = Inr (ss ! i)"
  by (simp add: script_def nth_append)

subsection \<open>Bounds on the number of queries\<close>

lemma py_loop_queries_le:
  "client j = Inr sj \<Longrightarrow> \<not> py_continue sj \<Longrightarrow> queries tr \<le> Suc j \<Longrightarrow>
   (queries tr = Suc j \<Longrightarrow> s = sj) \<Longrightarrow>
   queries (trace_of (py_loop fuel client job_name s tr)) \<le> Suc j"
proof (induction fuel arbitrary: s tr)
  case 0
  then show ?case by simp
next
  case (Suc fuel)
  show ?case
  proof (cases "py_continue s")
    case False
    then show ?thesis using Suc.prems(3) by simp
  next
    case True
    with Suc.prems have lt: "queries tr \<le> j" by (metis le_SucE)
    show ?thesis
    proof (cases "client (queries tr)")
      case (Inl e)
      then show ?thesis
        using py_loop_raise [where client=client and tr=tr, OF True Inl] lt
        by (simp add: count_simps)
    next
      case (Inr x)
      let ?tr = "tr @ py_body job_name x"
      have q: "queries ?tr = Suc (queries tr)" by (simp add: count_simps queries_py_body)
      have "queries (trace_of (py_loop fuel client job_name x ?tr)) \<le> Suc j"
      proof (rule Suc.IH [OF Suc.prems(1) Suc.prems(2)])
        show "queries ?tr \<le> Suc j" using q lt by simp
        show "x = sj" if "queries ?tr = Suc j"
          using that q Inr Suc.prems(1) by simp
      qed
      then show ?thesis using py_loop_step [where client=client and tr=tr, OF True Inr] by simp
    qed
  qed
qed

lemma r_loop_queries_le:
  "sm j = Inr sj \<Longrightarrow> \<not> r_continue sj \<Longrightarrow> queries tr \<le> Suc j \<Longrightarrow>
   (queries tr = Suc j \<Longrightarrow> s = sj) \<Longrightarrow>
   queries (trace_of (r_loop fuel sm tuning_job s tr)) \<le> Suc j"
proof (induction fuel arbitrary: s tr)
  case 0
  then show ?case by simp
next
  case (Suc fuel)
  show ?case
  proof (cases "r_continue s")
    case False
    then show ?thesis using Suc.prems(3) by simp
  next
    case True
    with Suc.prems have lt: "queries tr \<le> j" by (metis le_SucE)
    show ?thesis
    proof (cases "sm (queries tr)")
      case (Inl e)
      then show ?thesis
        using r_loop_raise [where sm=sm and tr=tr, OF True Inl] lt
        by (simp add: count_simps queries_r_body)
    next
      case (Inr x)
      let ?tr = "tr @ r_body tuning_job s"
      have q: "queries ?tr = Suc (queries tr)" by (simp add: count_simps queries_r_body)
      have "queries (trace_of (r_loop fuel sm tuning_job x ?tr)) \<le> Suc j"
      proof (rule Suc.IH [OF Suc.prems(1) Suc.prems(2)])
        show "queries ?tr \<le> Suc j" using q lt by simp
        show "x = sj" if "queries ?tr = Suc j"
          using that q Inr Suc.prems(1) by simp
      qed
      then show ?thesis using r_loop_step [where sm=sm and tr=tr, OF True Inr] by simp
    qed
  qed
qed

lemma py_watch_queries_le:
  assumes "client j = Inr sj" and "\<not> py_continue sj"
  shows "queries (trace_of (py_watch fuel client job_name)) \<le> Suc j"
proof (cases "client 0")
  case (Inl e)
  then show ?thesis using py_watch_first_raise [where client=client, OF Inl] by (simp add: count_simps)
next
  case (Inr s)
  have "queries (trace_of (py_loop fuel client job_name s [Query job_name, print_status s])) \<le> Suc j"
  proof (rule py_loop_queries_le [where client=client and j=j, OF assms])
    show "queries [Query job_name, print_status s] \<le> Suc j"
      by (simp add: count_simps print_status_def)
    show "s = sj" if "queries [Query job_name, print_status s] = Suc j"
      using that Inr assms(1) by (simp add: count_simps print_status_def)
  qed
  then show ?thesis using py_watch_first [where client=client, OF Inr] by simp
qed

lemma r_watch_queries_le:
  assumes "sm j = Inr sj" and "\<not> r_continue sj"
  shows "queries (trace_of (r_watch fuel sm tuning_job name)) \<le> Suc j"
proof (cases "sm 0")
  case (Inl e)
  then show ?thesis using r_watch_first_raise [where sm=sm, OF Inl] by (simp add: count_simps)
next
  case (Inr s)
  have "queries (trace_of (r_loop fuel sm tuning_job s ([Query tuning_job] @ message_name name))) \<le> Suc j"
  proof (rule r_loop_queries_le [where sm=sm and j=j, OF assms])
    show "queries ([Query tuning_job] @ message_name name) \<le> Suc j"
      by (simp add: count_simps queries_message_name)
    show "s = sj" if "queries ([Query tuning_job] @ message_name name) = Suc j"
      using that Inr assms(1) by (simp add: count_simps queries_message_name)
  qed
  then show ?thesis using r_watch_first [where sm=sm, OF Inr] by simp
qed

subsection \<open>What a run that goes on, and a run that returns, have done\<close>



lemma r_loop_Returned:
  "r_loop fuel sm tuning_job s tr = Returned t tr' \<Longrightarrow>
   \<not> r_continue t \<and> (t = s \<or> (\<exists>k. sm k = Inr t))"
proof (induction fuel arbitrary: s tr)
  case 0
  then show ?case by (simp split: if_splits)
next
  case (Suc fuel)
  show ?case
  proof (cases "r_continue s")
    case False
    then show ?thesis using Suc.prems by simp
  next
    case True
    show ?thesis
    proof (cases "sm (queries tr)")
      case (Inl e)
      then show ?thesis
        using Suc.prems r_loop_raise [where sm=sm and tr=tr, OF True Inl] by simp
    next
      case (Inr x)
      then have "r_loop fuel sm tuning_job x (tr @ r_body tuning_job s) = Returned t tr'"
        using Suc.prems r_loop_step [where sm=sm and tr=tr, OF True Inr] by simp
      then have "\<not> r_continue t \<and> (t = x \<or> (\<exists>k. sm k = Inr t))" by (rule Suc.IH)
      then show ?thesis using Inr by auto
    qed
  qed
qed

lemma r_watch_answers_polling:
  assumes "\<forall>k\<le>fuel. r_continue (snaps k)"
  shows "r_watch fuel (answers snaps) tuning_job name =
           Polling (snaps fuel) (r_trace tuning_job name (map snaps [0..<Suc fuel]))"
proof -
  let ?ss = "map snaps [0..<Suc fuel]"
  have "r_watch (length ?ss - 1 + 0) (answers snaps) tuning_job name =
      r_loop 0 (answers snaps) tuning_job (last ?ss) (r_trace tuning_job name ?ss)"
  proof (rule r_watch_steps)
    show "\<forall>i<length ?ss. answers snaps i = Inr (?ss ! i)"
      by (simp add: answers_def nth_append less_Suc_eq)
    show "?ss \<noteq> []" by simp
    show "\<forall>x\<in>set (butlast ?ss). r_continue x" using assms by (simp add: butlast_append)
  qed
  moreover have "r_continue (last ?ss)" using assms by simp
  ultimately show ?thesis by simp
qed

lemma r_watch_answers_returns:
  assumes "\<not> r_continue (snaps n)" and "\<forall>k<n. r_continue (snaps k)"
  shows "r_watch n (answers snaps) tuning_job name =
           Returned (snaps n) (r_trace tuning_job name (map snaps [0..<Suc n]))"
proof -
  let ?ss = "map snaps [0..<Suc n]"
  have "r_watch (length ?ss - 1 + 0) (answers snaps) tuning_job name =
      r_loop 0 (answers snaps) tuning_job (last ?ss) (r_trace tuning_job name ?ss)"
  proof (rule r_watch_steps)
    show "\<forall>i<length ?ss. answers snaps i = Inr (?ss ! i)"
      by (simp add: answers_def nth_append less_Suc_eq)
    show "?ss \<noteq> []" by simp
    show "\<forall>x\<in>set (butlast ?ss). r_continue x" using assms(2) by (simp add: butlast_append)
  qed
  moreover have "\<not> r_continue (last ?ss)" using assms(1) by simp
  ultimately show ?thesis by simp
qed

lemma answers_const: "answers (\<lambda>k. r) = always r"
  by (simp add: fun_eq_iff answers_def always_def)

lemma r_watch_always_polling:
  assumes "r_continue t"
  shows "r_watch fuel (always t) tuning_job name =
           Polling t (r_trace tuning_job name (replicate (Suc fuel) t))"
proof -
  have "map (\<lambda>k. t) [0..<Suc fuel] = replicate (Suc fuel) t"
    using map_replicate_const [of t "[0..<Suc fuel]"] by simp
  then show ?thesis
    using r_watch_answers_polling [of fuel "\<lambda>k. t" tuning_job name] assms
    by (simp add: answers_const)
qed

subsection \<open>Every run that returns has the expected shape\<close>

lemma py_loop_Returned_shape:
  "py_loop fuel client job_name s tr = Returned t tr' \<Longrightarrow>
   \<exists>ss. (\<forall>i<length ss. client (queries tr + i) = Inr (ss ! i)) \<and>
        (\<forall>x\<in>set (butlast (s # ss)). py_continue x) \<and> \<not> py_continue (last (s # ss)) \<and>
        t = last (s # ss) \<and> tr' = tr @ concat (map (py_body job_name) ss)"
proof (induction fuel arbitrary: s tr)
  case 0
  then have "\<not> py_continue s" "t = s" "tr' = tr" by (simp_all split: if_splits)
  then show ?case by (intro exI [of _ "[]"]) simp
next
  case (Suc fuel)
  show ?case
  proof (cases "py_continue s")
    case False
    then have "t = s" "tr' = tr" using Suc.prems by simp_all
    with False show ?thesis by (intro exI [of _ "[]"]) simp
  next
    case True
    show ?thesis
    proof (cases "client (queries tr)")
      case (Inl e)
      then show ?thesis
        using Suc.prems py_loop_raise [where client=client and tr=tr, OF True Inl] by simp
    next
      case (Inr x)
      let ?tr = "tr @ py_body job_name x"
      have "py_loop fuel client job_name x ?tr = Returned t tr'"
        using Suc.prems py_loop_step [where client=client and tr=tr, OF True Inr] by simp
      then obtain ss where ss:
        "\<forall>i<length ss. client (queries ?tr + i) = Inr (ss ! i)"
        "\<forall>y\<in>set (butlast (x # ss)). py_continue y" "\<not> py_continue (last (x # ss))"
        "t = last (x # ss)" "tr' = ?tr @ concat (map (py_body job_name) ss)"
        using Suc.IH by blast
      have "\<forall>i<length (x # ss). client (queries tr + i) = Inr ((x # ss) ! i)"
      proof (intro allI impI)
        fix i assume i: "i < length (x # ss)"
        show "client (queries tr + i) = Inr ((x # ss) ! i)"
        proof (cases i)
          case 0
          then show ?thesis using Inr by simp
        next
          case (Suc i')
          then have "client (queries ?tr + i') = Inr (ss ! i')" using ss(1) i by simp
          then show ?thesis using Suc by (simp add: queries_append queries_py_body)
        qed
      qed
      moreover have "\<forall>y\<in>set (butlast (s # x # ss)). py_continue y" using True ss(2) by simp
      moreover have "\<not> py_continue (last (s # x # ss))" using ss(3) by simp
      moreover have "t = last (s # x # ss)" using ss(4) by simp
      moreover have "tr' = tr @ concat (map (py_body job_name) (x # ss))" using ss(5) by simp
      ultimately show ?thesis by blast
    qed
  qed
qed

lemma py_watch_Returned_shape:
  assumes "py_watch fuel client job_name = Returned t tr"
  shows "\<exists>ss. ss \<noteq> [] \<and> (\<forall>i<length ss. client i = Inr (ss ! i)) \<and>
        (\<forall>x\<in>set (butlast ss). py_continue x) \<and> \<not> py_continue (last ss) \<and>
        t = last ss \<and> tr = py_trace job_name ss"
proof (cases "client 0")
  case (Inl e)
  then show ?thesis using assms py_watch_first_raise [where client=client, OF Inl] by simp
next
  case (Inr s)
  let ?tr = "[Query job_name, print_status s]"
  have q: "queries ?tr = 1" by (simp add: count_simps print_status_def)
  have "py_loop fuel client job_name s ?tr = Returned t tr"
    using assms py_watch_first [where client=client, OF Inr] by simp
  then obtain ss where ss:
    "\<forall>i<length ss. client (queries ?tr + i) = Inr (ss ! i)"
    "\<forall>y\<in>set (butlast (s # ss)). py_continue y" "\<not> py_continue (last (s # ss))"
    "t = last (s # ss)" "tr = ?tr @ concat (map (py_body job_name) ss)"
    using py_loop_Returned_shape by blast
  have "\<forall>i<length (s # ss). client i = Inr ((s # ss) ! i)"
  proof (intro allI impI)
    fix i assume i: "i < length (s # ss)"
    show "client i = Inr ((s # ss) ! i)"
    proof (cases i)
      case 0
      then show ?thesis using Inr by simp
    next
      case (Suc i')
      then have "client (queries ?tr + i') = Inr (ss ! i')" using ss(1) i by simp
      then show ?thesis using Suc q by simp
    qed
  qed
  moreover have "tr = py_trace job_name (s # ss)" using ss(5) by simp
  ultimately show ?thesis using ss(2,3,4) by (intro exI [of _ "s # ss"]) simp
qed

lemma r_loop_Returned_shape:
  "r_loop fuel sm tuning_job s tr = Returned t tr' \<Longrightarrow>
   \<exists>ss. (\<forall>i<length ss. sm (queries tr + i) = Inr (ss ! i)) \<and>
        (\<forall>x\<in>set (butlast (s # ss)). r_continue x) \<and> \<not> r_continue (last (s # ss)) \<and>
        t = last (s # ss) \<and> tr' = tr @ concat (map (r_body tuning_job) (butlast (s # ss)))"
proof (induction fuel arbitrary: s tr)
  case 0
  then have "\<not> r_continue s" "t = s" "tr' = tr" by (simp_all split: if_splits)
  then show ?case by (intro exI [of _ "[]"]) simp
next
  case (Suc fuel)
  show ?case
  proof (cases "r_continue s")
    case False
    then have "t = s" "tr' = tr" using Suc.prems by simp_all
    with False show ?thesis by (intro exI [of _ "[]"]) simp
  next
    case True
    show ?thesis
    proof (cases "sm (queries tr)")
      case (Inl e)
      then show ?thesis
        using Suc.prems r_loop_raise [where sm=sm and tr=tr, OF True Inl] by simp
    next
      case (Inr x)
      let ?tr = "tr @ r_body tuning_job s"
      have "r_loop fuel sm tuning_job x ?tr = Returned t tr'"
        using Suc.prems r_loop_step [where sm=sm and tr=tr, OF True Inr] by simp
      then obtain ss where ss:
        "\<forall>i<length ss. sm (queries ?tr + i) = Inr (ss ! i)"
        "\<forall>y\<in>set (butlast (x # ss)). r_continue y" "\<not> r_continue (last (x # ss))"
        "t = last (x # ss)" "tr' = ?tr @ concat (map (r_body tuning_job) (butlast (x # ss)))"
        using Suc.IH by blast
      have "\<forall>i<length (x # ss). sm (queries tr + i) = Inr ((x # ss) ! i)"
      proof (intro allI impI)
        fix i assume i: "i < length (x # ss)"
        show "sm (queries tr + i) = Inr ((x # ss) ! i)"
        proof (cases i)
          case 0
          then show ?thesis using Inr by simp
        next
          case (Suc i')
          then have "sm (queries ?tr + i') = Inr (ss ! i')" using ss(1) i by simp
          then show ?thesis using Suc by (simp add: queries_append queries_r_body)
        qed
      qed
      moreover have "\<forall>y\<in>set (butlast (s # x # ss)). r_continue y" using True ss(2) by simp
      moreover have "\<not> r_continue (last (s # x # ss))" using ss(3) by simp
      moreover have "t = last (s # x # ss)" using ss(4) by simp
      moreover have "tr' = tr @ concat (map (r_body tuning_job) (butlast (s # x # ss)))"
        using ss(5) by simp
      ultimately show ?thesis by blast
    qed
  qed
qed

lemma r_watch_Returned_shape:
  assumes "r_watch fuel sm tuning_job name = Returned t tr"
  shows "\<exists>ss. ss \<noteq> [] \<and> (\<forall>i<length ss. sm i = Inr (ss ! i)) \<and>
        (\<forall>x\<in>set (butlast ss). r_continue x) \<and> \<not> r_continue (last ss) \<and>
        t = last ss \<and> tr = r_trace tuning_job name ss"
proof (cases "sm 0")
  case (Inl e)
  then show ?thesis using assms r_watch_first_raise [where sm=sm, OF Inl] by simp
next
  case (Inr s)
  let ?tr = "[Query tuning_job] @ message_name name"
  have q: "queries ?tr = 1" by (simp add: count_simps queries_message_name)
  have "r_loop fuel sm tuning_job s ?tr = Returned t tr"
    using assms r_watch_first [where sm=sm, OF Inr] by simp
  then obtain ss where ss:
    "\<forall>i<length ss. sm (queries ?tr + i) = Inr (ss ! i)"
    "\<forall>y\<in>set (butlast (s # ss)). r_continue y" "\<not> r_continue (last (s # ss))"
    "t = last (s # ss)" "tr = ?tr @ concat (map (r_body tuning_job) (butlast (s # ss)))"
    using r_loop_Returned_shape by blast
  have "\<forall>i<length (s # ss). sm i = Inr ((s # ss) ! i)"
  proof (intro allI impI)
    fix i assume i: "i < length (s # ss)"
    show "sm i = Inr ((s # ss) ! i)"
    proof (cases i)
      case 0
      then show ?thesis using Inr by simp
    next
      case (Suc i')
      then have "sm (queries ?tr + i') = Inr (ss ! i')" using ss(1) i by simp
      then show ?thesis using Suc q by simp
    qed
  qed
  moreover have "tr = r_trace tuning_job name (s # ss)" using ss(5) by (simp add: r_trace_def)
  ultimately show ?thesis using ss(2,3,4) by (intro exI [of _ "s # ss"]) simp
qed

subsection \<open>Queries and sleeps alternate\<close>







subsection \<open>Log lines in the expected traces\<close>

lemma print_status_in_py_trace:
  "x \<in> set ss \<Longrightarrow> print_status x \<in> set (py_trace job_name ss)"
  by (cases ss) (auto simp add: py_body_def)

lemma message_status_in_r_trace:
  "x \<in> set (butlast ss) \<Longrightarrow> set (message_status x) \<subseteq> set (r_trace tuning_job name ss)"
  by (auto simp add: r_trace_def r_body_def)

subsection \<open>The first event of a run\<close>



subsection \<open>The expected traces, event by event\<close>

lemma py_body_literal:
  "py_body job_name =
     (\<lambda>x. [Sleep 60, Query job_name,
           Print (AutoMLJobStatus x @ '' - '' @ AutoMLJobSecondaryStatus x)])"
  by (simp add: fun_eq_iff py_body_def print_status_def)

lemma py_trace_literal:
  "ss \<noteq> [] \<Longrightarrow>
   py_trace job_name ss =
     [Query job_name, Print (AutoMLJobStatus (hd ss) @ '' - '' @ AutoMLJobSecondaryStatus (hd ss))] @
     concat (map (\<lambda>x. [Sleep 60, Query job_name,
                        Print (AutoMLJobStatus x @ '' - '' @ AutoMLJobSecondaryStatus x)]) (tl ss))"
  by (cases ss) (simp_all add: py_body_literal print_status_def)

lemma r_body_literal:
  "r_body tuning_job =
     (\<lambda>x. [Cat [Str ''Hyperparameter Tuning Job Status: '', Str (HyperParameterTuningJobStatus x),
                Str [CHR 0x0A]],
           Message,
           Cat [Str ''Succeeded Models:'', Num (Succeeded (ObjectiveStatusCounters x)),
                Str '' InProgress Models: '', Num (Pending (ObjectiveStatusCounters x)),
                Str '' Failed Models: '', Num (Failed (ObjectiveStatusCounters x)),
                Str [CHR 0x0A]],
           Message,
           Sleep 60, Query tuning_job])"
  by (simp add: fun_eq_iff r_body_def message_status_def)

lemma r_trace_literal:
  "r_trace tuning_job name ts =
     [Query tuning_job,
      Cat [Str ''Hyperparameter Tuning Job Name: '', Str name, Str [CHR 0x0A]], Message] @
     concat (map (\<lambda>x. [Cat [Str ''Hyperparameter Tuning Job Status: '',
                             Str (HyperParameterTuningJobStatus x), Str [CHR 0x0A]],
                        Message,
                        Cat [Str ''Succeeded Models:'', Num (Succeeded (ObjectiveStatusCounters x)),
                             Str '' InProgress Models: '', Num (Pending (ObjectiveStatusCounters x)),
                             Str '' Failed Models: '', Num (Failed (ObjectiveStatusCounters x)),
                             Str [CHR 0x0A]],
                        Message,
                        Sleep 60, Query tuning_job]) (butlast ts))"
  by (simp add: r_trace_def message_name_def r_body_literal)


subsection \<open>Runs that go on and runs that return\<close>



lemma py_watch_returns:
  assumes "ss \<noteq> []" and "\<forall>i<length ss. client i = Inr (ss ! i)"
    and "\<forall>x\<in>set (butlast ss). py_continue x" and "\<not> py_continue (last ss)"
    and "length ss \<le> Suc fuel"
  shows "py_watch fuel client job_name = Returned (last ss) (py_trace job_name ss)"
proof -
  from assms(5) have fuel: "fuel = length ss - 1 + (fuel - (length ss - 1))" by arith
  have "py_watch (length ss - 1 + (fuel - (length ss - 1))) client job_name =
      py_loop (fuel - (length ss - 1)) client job_name (last ss) (py_trace job_name ss)"
    using assms(1,2,3) by (intro py_watch_steps) simp_all
  then show ?thesis using fuel assms(4) by (simp add: py_loop_exit)
qed

lemma r_watch_returns:
  assumes "ts \<noteq> []" and "\<forall>i<length ts. sm i = Inr (ts ! i)"
    and "\<forall>x\<in>set (butlast ts). r_continue x" and "\<not> r_continue (last ts)"
    and "length ts \<le> Suc fuel"
  shows "r_watch fuel sm tuning_job name = Returned (last ts) (r_trace tuning_job name ts)"
proof -
  from assms(5) have fuel: "fuel = length ts - 1 + (fuel - (length ts - 1))" by arith
  have "r_watch (length ts - 1 + (fuel - (length ts - 1))) sm tuning_job name =
      r_loop (fuel - (length ts - 1)) sm tuning_job (last ts) (r_trace tuning_job name ts)"
    using assms(1,2,3) by (intro r_watch_steps) simp_all
  then show ?thesis using fuel assms(4) by (simp add: r_loop_exit)
qed

subsection \<open>Log lines in the traces written out\<close>

lemma print_in_py_trace:
  "x \<in> set ss \<Longrightarrow>
   Print (AutoMLJobStatus x @ '' - '' @ AutoMLJobSecondaryStatus x) \<in> set (py_trace job_name ss)"
  using print_status_in_py_trace [of x ss job_name] by (simp add: print_status_def)

lemma status_lines_in_r_trace:
  "x \<in> set (butlast ts) \<Longrightarrow>
   Cat [Str ''Hyperparameter Tuning Job Status: '', Str (HyperParameterTuningJobStatus x),
                   Str [CHR 0x0A]] \<in> set (r_trace tuning_job name ts) \<and>
   Cat [Str ''Succeeded Models:'', Num (Succeeded (ObjectiveStatusCounters x)),
                   Str '' InProgress Models: '', Num (Pending (ObjectiveStatusCounters x)),
                   Str '' Failed Models: '', Num (Failed (ObjectiveStatusCounters x)),
                   Str [CHR 0x0A]] \<in> set (r_trace tuning_job name ts)"
  using message_status_in_r_trace [of x ts tuning_job name] by (simp add: message_status_def)

lemma completed_terminal: "st = ''Completed'' \<Longrightarrow> spec_terminal st"
  by (simp add: spec_terminal_def)

section \<open>The claims\<close>

subsection \<open>C1: no query after the snapshot that ends the run\<close>

text \<open>
  The claim as written fails for the terminal values the loops do not test. With a job
  that is \<open>Failed\<close> at every call the R watcher, given fuel for three iterations, makes four
  queries, all but the first after a terminal snapshot; so does the Python watcher with a
  job that is \<open>Stopped - Stopped\<close> at every call.
\<close>

theorem c1_counterexample:
  "spec_terminal (HyperParameterTuningJobStatus (tuning ''Failed'' 0 0 2))
   \<and> always (tuning ''Failed'' 0 0 2) 0 = Inr (tuning ''Failed'' 0 0 2)
   \<and> queries (trace_of (r_watch 3 (always (tuning ''Failed'' 0 0 2)) ''tuning-job'' ''job'')) = 4
   \<and> spec_terminal (AutoMLJobStatus (automl ''Stopped'' ''Stopped''))
   \<and> always (automl ''Stopped'' ''Stopped'') 0 = Inr (automl ''Stopped'' ''Stopped'')
   \<and> queries (trace_of (py_watch 3 (always (automl ''Stopped'' ''Stopped'')) ''job'')) = 4"
  by (simp add: spec_terminal_def tuning_def automl_def r_watch_def py_watch_def always_def
      describe_hyper_parameter_tuning_job_def describe_auto_ml_job_def count_simps
      message_name_def message_status_def r_continue_def py_continue_def print_status_def
      eval_nat_numeral)

text \<open>
  C1 (amended). For every run of the watcher, whatever the client answers and whatever the
  fuel: once a query returns a snapshot whose primary status is \<open>Completed\<close> (or, for the
  Python watcher, whose secondary status is \<open>Failed\<close>), the watcher performs no further
  queries. If the call number \<open>j\<close> (counted from \<open>0\<close>) is answered with such a snapshot, no
  run makes more than \<open>j + 1\<close> calls. The first conjunct is the Python watcher, the second
  the R watcher.
\<close>

theorem c1_no_query_after_final_snapshot:
  "(client j = Inr s \<and>
    (AutoMLJobStatus s = ''Completed'' \<or> AutoMLJobSecondaryStatus s = ''Failed'') \<longrightarrow>
      queries (trace_of (py_watch fuel client job_name)) \<le> Suc j)
   \<and>
   (sm j = Inr t \<and> HyperParameterTuningJobStatus t = ''Completed'' \<longrightarrow>
      queries (trace_of (r_watch fuel sm tuning_job name)) \<le> Suc j)"
proof (intro conjI impI)
  assume a: "client j = Inr s \<and>
    (AutoMLJobStatus s = ''Completed'' \<or> AutoMLJobSecondaryStatus s = ''Failed'')"
  then have "\<not> py_continue s" by (simp add: py_exit_iff)
  with a show "queries (trace_of (py_watch fuel client job_name)) \<le> Suc j"
    using py_watch_queries_le [where client=client and j=j and sj=s] by simp
next
  assume a: "sm j = Inr t \<and> HyperParameterTuningJobStatus t = ''Completed''"
  then have "\<not> r_continue t" by (simp add: r_continue_def)
  with a show "queries (trace_of (r_watch fuel sm tuning_job name)) \<le> Suc j"
    using r_watch_queries_le [where sm=sm and j=j and sj=t] by simp
qed

text \<open>A job that completes at the second call and then stays completed: with fuel for a
  hundred iterations neither watcher makes a third call.\<close>

theorem c1_witness:
  "queries (trace_of (py_watch 100
      (script [Inr (automl ''InProgress'' ''ModelTuning''), Inr (automl ''Completed'' ''Completed''),
               Inr (automl ''Completed'' ''Completed''), Inr (automl ''Completed'' ''Completed'')])
      ''job'')) \<le> 2
   \<and> queries (trace_of (r_watch 100
      (script [Inr (tuning ''InProgress'' 1 1 0), Inr (tuning ''Completed'' 2 0 0),
               Inr (tuning ''Completed'' 2 0 0), Inr (tuning ''Completed'' 2 0 0)])
      ''tuning-job'' ''job'')) \<le> 2"
  using c1_no_query_after_final_snapshot
    [of "script [Inr (automl ''InProgress'' ''ModelTuning''), Inr (automl ''Completed'' ''Completed''),
               Inr (automl ''Completed'' ''Completed''), Inr (automl ''Completed'' ''Completed'')]"
        1 "automl ''Completed'' ''Completed''" 100 "''job''"
        "script [Inr (tuning ''InProgress'' 1 1 0), Inr (tuning ''Completed'' 2 0 0),
               Inr (tuning ''Completed'' 2 0 0), Inr (tuning ''Completed'' 2 0 0)]"
        "tuning ''Completed'' 2 0 0" "''tuning-job''" "''job''"]
  by (simp add: script_def automl_def tuning_def)

subsection \<open>C2: the number of queries up to the final snapshot\<close>

text \<open>
  The claim as written fails twice. The R loop leaves only on \<open>Completed\<close>: after a first
  snapshot \<open>Failed\<close>, which is terminal, it calls the client again (here the scripted client
  has nothing left and raises). The Python loop also leaves on a secondary status
  \<open>Failed\<close>: it returns the first snapshot \<open>InProgress - Failed\<close>, which is not terminal,
  after one query, although the terminal snapshot is the second one.
\<close>

theorem c2_counterexample:
  "spec_terminal (HyperParameterTuningJobStatus (tuning ''Failed'' 0 0 2))
   \<and> r_watch 1 (script [Inr (tuning ''Failed'' 0 0 2)]) ''tuning-job'' ''job''
       = Raised (StatusQueryError ''script exhausted'')
           (r_trace ''tuning-job'' ''job'' [tuning ''Failed'' 0 0 2, tuning ''Failed'' 0 0 2])
   \<and> queries (r_trace ''tuning-job'' ''job'' [tuning ''Failed'' 0 0 2, tuning ''Failed'' 0 0 2]) = 2
   \<and> \<not> spec_terminal (AutoMLJobStatus (automl ''InProgress'' ''Failed''))
   \<and> spec_terminal (AutoMLJobStatus (automl ''Completed'' ''Completed''))
   \<and> py_watch 1 (script [Inr (automl ''InProgress'' ''Failed''), Inr (automl ''Completed'' ''Completed'')]) ''job''
       = Returned (automl ''InProgress'' ''Failed'') (py_trace ''job'' [automl ''InProgress'' ''Failed''])
   \<and> queries (py_trace ''job'' [automl ''InProgress'' ''Failed'']) = 1"
  by (simp add: spec_terminal_def tuning_def automl_def r_watch_def py_watch_def script_def
      describe_hyper_parameter_tuning_job_def describe_auto_ml_job_def count_simps
      message_name_def message_status_def r_continue_def py_continue_def r_trace_def r_body_def
      print_status_def)

text \<open>
  C2 (amended). For every finite sequence of snapshots \<open>[s0, ..., sn]\<close> answered by
  successive queries in which \<open>s0\<close> to \<open>s(n-1)\<close> are non-terminal (and, for the Python
  watcher, have a secondary status other than \<open>Failed\<close>) and \<open>sn\<close> has the primary status
  \<open>Completed\<close> (or, for the Python watcher, the secondary status \<open>Failed\<close>), the watcher,
  given fuel for at least \<open>n\<close> iterations, performs exactly \<open>n + 1\<close> queries and returns
  \<open>sn\<close>. The first conjunct is the Python watcher, the second the R watcher.
\<close>

theorem c2_returns_after_all_queries:
  "(ss \<noteq> [] \<and> (\<forall>i<length ss. client i = Inr (ss ! i)) \<and>
    (\<forall>x\<in>set (butlast ss). \<not> spec_terminal (AutoMLJobStatus x) \<and> AutoMLJobSecondaryStatus x \<noteq> ''Failed'') \<and>
    (AutoMLJobStatus (last ss) = ''Completed'' \<or> AutoMLJobSecondaryStatus (last ss) = ''Failed'') \<and>
    length ss \<le> Suc fuel \<longrightarrow>
      py_watch fuel client job_name = Returned (last ss) (py_trace job_name ss) \<and>
      queries (py_trace job_name ss) = length ss)
   \<and>
   (ts \<noteq> [] \<and> (\<forall>i<length ts. sm i = Inr (ts ! i)) \<and>
    (\<forall>x\<in>set (butlast ts). \<not> spec_terminal (HyperParameterTuningJobStatus x)) \<and>
    HyperParameterTuningJobStatus (last ts) = ''Completed'' \<and>
    length ts \<le> Suc fuel \<longrightarrow>
      r_watch fuel sm tuning_job name = Returned (last ts) (r_trace tuning_job name ts) \<and>
      queries (r_trace tuning_job name ts) = length ts)"
proof (intro conjI impI)
  assume a: "ss \<noteq> [] \<and> (\<forall>i<length ss. client i = Inr (ss ! i)) \<and>
    (\<forall>x\<in>set (butlast ss). \<not> spec_terminal (AutoMLJobStatus x) \<and> AutoMLJobSecondaryStatus x \<noteq> ''Failed'') \<and>
    (AutoMLJobStatus (last ss) = ''Completed'' \<or> AutoMLJobSecondaryStatus (last ss) = ''Failed'') \<and>
    length ss \<le> Suc fuel"
  then have pre: "\<forall>x\<in>set (butlast ss). py_continue x"
    using py_nonterminal_continue by blast
  from a have "length ss \<le> Suc fuel" by simp
  then have fuel: "fuel = length ss - 1 + (fuel - (length ss - 1))" by arith
  have "py_watch (length ss - 1 + (fuel - (length ss - 1))) client job_name =
      py_loop (fuel - (length ss - 1)) client job_name (last ss) (py_trace job_name ss)"
    using a pre by (intro py_watch_steps) simp_all
  moreover have "\<not> py_continue (last ss)" using a by (simp add: py_exit_iff)
  ultimately show "py_watch fuel client job_name = Returned (last ss) (py_trace job_name ss)"
    using fuel by (simp add: py_loop_exit)
  show "queries (py_trace job_name ss) = length ss" by (rule queries_py_trace)
next
  assume a: "ts \<noteq> [] \<and> (\<forall>i<length ts. sm i = Inr (ts ! i)) \<and>
    (\<forall>x\<in>set (butlast ts). \<not> spec_terminal (HyperParameterTuningJobStatus x)) \<and>
    HyperParameterTuningJobStatus (last ts) = ''Completed'' \<and>
    length ts \<le> Suc fuel"
  then have pre: "\<forall>x\<in>set (butlast ts). r_continue x"
    using r_nonterminal_continue by blast
  from a have "length ts \<le> Suc fuel" by simp
  then have fuel: "fuel = length ts - 1 + (fuel - (length ts - 1))" by arith
  have "r_watch (length ts - 1 + (fuel - (length ts - 1))) sm tuning_job name =
      r_loop (fuel - (length ts - 1)) sm tuning_job (last ts) (r_trace tuning_job name ts)"
    using a pre by (intro r_watch_steps) simp_all
  moreover have "\<not> r_continue (last ts)" using a by (simp add: r_continue_def)
  ultimately show "r_watch fuel sm tuning_job name = Returned (last ts) (r_trace tuning_job name ts)"
    using fuel by (simp add: r_loop_exit)
  show "queries (r_trace tuning_job name ts) = length ts" using a by (simp add: queries_r_trace)
qed

text \<open>The scenario of the specification, \<open>[InProgress, InProgress, Completed]\<close>: both
  watchers return the \<open>Completed\<close> snapshot after exactly 3 calls.\<close>

theorem c2_witness:
  "py_watch 2 (script [Inr (automl ''InProgress'' ''AnalyzingData''),
                       Inr (automl ''InProgress'' ''ModelTuning''),
                       Inr (automl ''Completed'' ''Completed'')]) ''job''
     = Returned (automl ''Completed'' ''Completed'')
         (py_trace ''job'' [automl ''InProgress'' ''AnalyzingData'', automl ''InProgress'' ''ModelTuning'',
                            automl ''Completed'' ''Completed''])
   \<and> queries (py_trace ''job'' [automl ''InProgress'' ''AnalyzingData'', automl ''InProgress'' ''ModelTuning'',
                            automl ''Completed'' ''Completed'']) = 3
   \<and> r_watch 2 (script [Inr (tuning ''InProgress'' 0 2 0), Inr (tuning ''InProgress'' 1 1 0),
                        Inr (tuning ''Completed'' 2 0 0)]) ''tuning-job'' ''job''
     = Returned (tuning ''Completed'' 2 0 0)
         (r_trace ''tuning-job'' ''job'' [tuning ''InProgress'' 0 2 0, tuning ''InProgress'' 1 1 0,
            tuning ''Completed'' 2 0 0])
   \<and> queries (r_trace ''tuning-job'' ''job'' [tuning ''InProgress'' 0 2 0, tuning ''InProgress'' 1 1 0,
            tuning ''Completed'' 2 0 0]) = 3"
  using c2_returns_after_all_queries
    [of "[automl ''InProgress'' ''AnalyzingData'', automl ''InProgress'' ''ModelTuning'',
          automl ''Completed'' ''Completed'']"
        "script (map Inr [automl ''InProgress'' ''AnalyzingData'', automl ''InProgress'' ''ModelTuning'',
          automl ''Completed'' ''Completed''])"
        2 "''job''"
        "[tuning ''InProgress'' 0 2 0, tuning ''InProgress'' 1 1 0, tuning ''Completed'' 2 0 0]"
        "script (map Inr [tuning ''InProgress'' 0 2 0, tuning ''InProgress'' 1 1 0, tuning ''Completed'' 2 0 0])"
        "''tuning-job''" "''job''"]
    script_map_Inr [of _ "[automl ''InProgress'' ''AnalyzingData'', automl ''InProgress'' ''ModelTuning'',
          automl ''Completed'' ''Completed'']"]
    script_map_Inr [of _ "[tuning ''InProgress'' 0 2 0, tuning ''InProgress'' 1 1 0, tuning ''Completed'' 2 0 0]"]
  by (simp add: automl_def tuning_def spec_terminal_def)

subsection \<open>C3: a job that has failed when first queried\<close>

text \<open>
  C3. If the first query returns a snapshot whose primary status is \<open>Failed\<close>, the watcher
  is to perform exactly one query and to return that snapshot as an ordinary result, not
  as an error. The Python watcher does so: a first response \<open>Failed - Failed\<close> ends the run
  after one query and is its result. The R watcher does not: its loop condition tests only
  \<open>Completed\<close>, so after a first snapshot \<open>Failed\<close> it prints the status, sleeps and
  queries again, and while the job stays \<open>Failed\<close> it never returns. The theorem runs both
  watchers on a job that is \<open>Failed\<close> at every call: the R watcher, given fuel for \<open>fuel\<close>
  iterations, has made \<open>fuel + 1\<close> queries and is still polling (first and second
  conjunct); the Python watcher has returned the snapshot after its first query (third
  conjunct).
\<close>

theorem c3_failed_first_snapshot:
  "r_watch fuel (always (tuning ''Failed'' a b c)) tuning_job name =
     Polling (tuning ''Failed'' a b c)
       (r_trace tuning_job name (replicate (Suc fuel) (tuning ''Failed'' a b c)))
   \<and> queries (r_trace tuning_job name (replicate (Suc fuel) (tuning ''Failed'' a b c))) = Suc fuel
   \<and> py_watch fuel (always (automl ''Failed'' ''Failed'')) job_name =
       Returned (automl ''Failed'' ''Failed'') [Query job_name, Print ''Failed - Failed'']"
proof (intro conjI)
  have "r_continue (tuning ''Failed'' a b c)" by (simp add: r_continue_def tuning_def)
  then show "r_watch fuel (always (tuning ''Failed'' a b c)) tuning_job name =
     Polling (tuning ''Failed'' a b c)
       (r_trace tuning_job name (replicate (Suc fuel) (tuning ''Failed'' a b c)))"
    by (rule r_watch_always_polling)
  show "queries (r_trace tuning_job name (replicate (Suc fuel) (tuning ''Failed'' a b c))) = Suc fuel"
    using queries_r_trace [of "replicate (Suc fuel) (tuning ''Failed'' a b c)" tuning_job name]
    by simp
  have first: "always (automl ''Failed'' ''Failed'') 0 = Inr (automl ''Failed'' ''Failed'')"
    by (simp add: always_def)
  have "\<not> py_continue (automl ''Failed'' ''Failed'')" by (simp add: py_continue_def automl_def)
  then show "py_watch fuel (always (automl ''Failed'' ''Failed'')) job_name =
       Returned (automl ''Failed'' ''Failed'') [Query job_name, Print ''Failed - Failed'']"
    using py_watch_first [where client="always (automl ''Failed'' ''Failed'')", OF first]
    by (simp add: py_loop_exit) (simp add: print_status_def automl_def)
qed

text \<open>The R watcher with fuel for two iterations: three queries, not one, and no result.\<close>

theorem c3_witness:
  "r_watch 2 (always (tuning ''Failed'' 0 0 2)) ''tuning-job'' ''job'' =
     Polling (tuning ''Failed'' 0 0 2)
       (r_trace ''tuning-job'' ''job'' (replicate (Suc 2) (tuning ''Failed'' 0 0 2)))
   \<and> queries (r_trace ''tuning-job'' ''job'' (replicate (Suc 2) (tuning ''Failed'' 0 0 2))) = Suc 2
   \<and> py_watch 2 (always (automl ''Failed'' ''Failed'')) ''job'' =
       Returned (automl ''Failed'' ''Failed'') [Query ''job'', Print ''Failed - Failed'']"
  by (rule c3_failed_first_snapshot [of 2 0 0 2 "''tuning-job''" "''job''" "''job''"])

subsection \<open>C4: an error of the status query\<close>

text \<open>
  C4. If the status query raises an error on any call, the first one or a later one, the
  watcher propagates that error to its caller, performs no further queries and does not
  retry. Here \<open>ss\<close> are the snapshots of the calls before the failing one (each of them
  keeps the loop going, so the failing call is made), and the fuel suffices to reach it.
  The run ends in \<open>Raised\<close> with the error of the client; the failing call is the last event
  of the trace and the trace holds one query more than snapshots were fetched. The first
  conjunct is the Python watcher, the second the R watcher.
\<close>

theorem c4_query_error_propagates:
  "((\<forall>i<length ss. client i = Inr (ss ! i)) \<and> (\<forall>x\<in>set ss. py_continue x) \<and>
    client (length ss) = Inl e \<and> length ss \<le> fuel \<longrightarrow>
      py_watch fuel client job_name =
        Raised e (py_trace job_name ss @ (if ss = [] then [] else [Sleep 60]) @ [Query job_name]) \<and>
      queries (py_trace job_name ss @ (if ss = [] then [] else [Sleep 60]) @ [Query job_name])
        = Suc (length ss))
   \<and>
   ((\<forall>i<length ts. sm i = Inr (ts ! i)) \<and> (\<forall>x\<in>set ts. r_continue x) \<and>
    sm (length ts) = Inl e' \<and> length ts \<le> fuel \<longrightarrow>
      r_watch fuel sm tuning_job name =
        Raised e' (if ts = [] then [Query tuning_job]
                   else r_trace tuning_job name ts @ r_body tuning_job (last ts)) \<and>
      queries (if ts = [] then [Query tuning_job]
               else r_trace tuning_job name ts @ r_body tuning_job (last ts)) = Suc (length ts))"
proof (intro conjI impI)
  assume a: "(\<forall>i<length ss. client i = Inr (ss ! i)) \<and> (\<forall>x\<in>set ss. py_continue x) \<and>
    client (length ss) = Inl e \<and> length ss \<le> fuel"
  show "py_watch fuel client job_name =
        Raised e (py_trace job_name ss @ (if ss = [] then [] else [Sleep 60]) @ [Query job_name])"
  proof (cases "ss = []")
    case True
    then show ?thesis using a py_watch_first_raise [where client=client and e=e] by simp
  next
    case False
    from a False have "1 \<le> length ss" "length ss \<le> fuel" by (simp_all add: Suc_le_eq)
    then have fuel: "fuel = length ss - 1 + Suc (fuel - length ss)" by arith
    have pre: "\<forall>x\<in>set (butlast ss). py_continue x"
      using a by (meson in_set_butlastD)
    have "py_watch (length ss - 1 + Suc (fuel - length ss)) client job_name =
        py_loop (Suc (fuel - length ss)) client job_name (last ss) (py_trace job_name ss)"
      using a False pre by (intro py_watch_steps) simp_all
    moreover have "py_continue (last ss)" using a False by simp
    moreover have "client (queries (py_trace job_name ss)) = Inl e"
      using a by (simp add: queries_py_trace)
    ultimately show ?thesis using fuel False
      py_loop_raise [where client=client and tr="py_trace job_name ss" and s="last ss" and e=e]
      by simp
  qed
  show "queries (py_trace job_name ss @ (if ss = [] then [] else [Sleep 60]) @ [Query job_name])
        = Suc (length ss)"
    by (simp add: count_simps queries_py_trace)
next
  assume a: "(\<forall>i<length ts. sm i = Inr (ts ! i)) \<and> (\<forall>x\<in>set ts. r_continue x) \<and>
    sm (length ts) = Inl e' \<and> length ts \<le> fuel"
  show "r_watch fuel sm tuning_job name =
        Raised e' (if ts = [] then [Query tuning_job]
                   else r_trace tuning_job name ts @ r_body tuning_job (last ts))"
  proof (cases "ts = []")
    case True
    then show ?thesis using a r_watch_first_raise [where sm=sm and e=e'] by simp
  next
    case False
    from a False have "1 \<le> length ts" "length ts \<le> fuel" by (simp_all add: Suc_le_eq)
    then have fuel: "fuel = length ts - 1 + Suc (fuel - length ts)" by arith
    have pre: "\<forall>x\<in>set (butlast ts). r_continue x"
      using a by (meson in_set_butlastD)
    have "r_watch (length ts - 1 + Suc (fuel - length ts)) sm tuning_job name =
        r_loop (Suc (fuel - length ts)) sm tuning_job (last ts) (r_trace tuning_job name ts)"
      using a False pre by (intro r_watch_steps) simp_all
    moreover have "r_continue (last ts)" using a False by simp
    moreover have "sm (queries (r_trace tuning_job name ts)) = Inl e'"
      using a False by (simp add: queries_r_trace)
    ultimately show ?thesis using fuel False
      r_loop_raise [where sm=sm and tr="r_trace tuning_job name ts" and s="last ts" and e=e']
      by simp
  qed
  show "queries (if ts = [] then [Query tuning_job]
               else r_trace tuning_job name ts @ r_body tuning_job (last ts)) = Suc (length ts)"
    by (simp add: count_simps queries_r_trace queries_r_body)
qed

text \<open>The Python watcher when the second call is throttled, the R watcher when the first
  call is denied.\<close>

theorem c4_witness:
  "py_watch 5 (script [Inr (automl ''InProgress'' ''AnalyzingData''),
                       Inl (StatusQueryError ''ThrottlingException'')]) ''job''
     = Raised (StatusQueryError ''ThrottlingException'')
         (py_trace ''job'' [automl ''InProgress'' ''AnalyzingData''] @ [Sleep 60] @ [Query ''job''])
   \<and> queries (py_trace ''job'' [automl ''InProgress'' ''AnalyzingData''] @ [Sleep 60] @ [Query ''job'']) = 2
   \<and> r_watch 5 (script [Inl (StatusQueryError ''AccessDenied'')]) ''tuning-job'' ''job''
     = Raised (StatusQueryError ''AccessDenied'') [Query ''tuning-job'']
   \<and> queries [Query ''tuning-job''] = 1"
  using c4_query_error_propagates
    [of "[automl ''InProgress'' ''AnalyzingData'']"
        "script (map Inr [automl ''InProgress'' ''AnalyzingData''] @ [Inl (StatusQueryError ''ThrottlingException'')])"
        "StatusQueryError ''ThrottlingException''" 5 "''job''"
        "[]" "script [Inl (StatusQueryError ''AccessDenied'')]" "StatusQueryError ''AccessDenied''"
        "''tuning-job''" "''job''"]
  by (simp add: script_def automl_def py_continue_def)

subsection \<open>C5: a first snapshot that ends the run\<close>

text \<open>
  The claim as written fails for the terminal values the loops do not test: the Python
  watcher sleeps and queries again after a first snapshot \<open>Stopped - Stopped\<close>, the R
  watcher after a first snapshot \<open>Failed\<close>.
\<close>

theorem c5_counterexample:
  "spec_terminal (AutoMLJobStatus (automl ''Stopped'' ''Stopped''))
   \<and> py_watch 1 (always (automl ''Stopped'' ''Stopped'')) ''job''
       = Polling (automl ''Stopped'' ''Stopped'')
           [Query ''job'', Print ''Stopped - Stopped'', Sleep 60, Query ''job'', Print ''Stopped - Stopped'']
   \<and> spec_terminal (HyperParameterTuningJobStatus (tuning ''Failed'' 0 0 2))
   \<and> queries (trace_of (r_watch 1 (always (tuning ''Failed'' 0 0 2)) ''tuning-job'' ''job'')) = 2
   \<and> sleeps (trace_of (r_watch 1 (always (tuning ''Failed'' 0 0 2)) ''tuning-job'' ''job'')) = 1"
  by (simp add: spec_terminal_def tuning_def automl_def r_watch_def py_watch_def always_def
      describe_hyper_parameter_tuning_job_def describe_auto_ml_job_def count_simps
      message_name_def message_status_def r_continue_def py_continue_def print_status_def)

text \<open>
  C5 (amended). If the first query already returns a snapshot whose primary status is
  \<open>Completed\<close> (or, for the Python watcher, whose secondary status is \<open>Failed\<close>), the
  watcher performs exactly one query in total and no sleep occurs before it returns,
  whatever the fuel. The first conjunct is the Python watcher, the second the R watcher.
\<close>

theorem c5_terminal_first_query:
  "(client 0 = Inr s \<and>
    (AutoMLJobStatus s = ''Completed'' \<or> AutoMLJobSecondaryStatus s = ''Failed'') \<longrightarrow>
      py_watch fuel client job_name = Returned s [Query job_name, print_status s] \<and>
      queries [Query job_name, print_status s] = 1 \<and> sleeps [Query job_name, print_status s] = 0)
   \<and>
   (sm 0 = Inr t \<and> HyperParameterTuningJobStatus t = ''Completed'' \<longrightarrow>
      r_watch fuel sm tuning_job name = Returned t ([Query tuning_job] @ message_name name) \<and>
      queries ([Query tuning_job] @ message_name name) = 1 \<and>
      sleeps ([Query tuning_job] @ message_name name) = 0)"
proof (intro conjI impI)
  assume a: "client 0 = Inr s \<and>
    (AutoMLJobStatus s = ''Completed'' \<or> AutoMLJobSecondaryStatus s = ''Failed'')"
  then have "\<not> py_continue s" by (simp add: py_exit_iff)
  then show "py_watch fuel client job_name = Returned s [Query job_name, print_status s]"
    using a py_watch_first [where client=client and s=s] by (simp add: py_loop_exit)
  show "queries [Query job_name, print_status s] = 1"
    by (simp add: count_simps print_status_def)
  show "sleeps [Query job_name, print_status s] = 0"
    by (simp add: count_simps print_status_def)
next
  assume a: "sm 0 = Inr t \<and> HyperParameterTuningJobStatus t = ''Completed''"
  then have "\<not> r_continue t" by (simp add: r_continue_def)
  then show "r_watch fuel sm tuning_job name = Returned t ([Query tuning_job] @ message_name name)"
    using a r_watch_first [where sm=sm and s=t] by (simp add: r_loop_exit)
  show "queries ([Query tuning_job] @ message_name name) = 1"
    by (simp add: count_simps queries_message_name)
  show "sleeps ([Query tuning_job] @ message_name name) = 0"
    by (simp add: count_simps sleeps_message_name)
qed

text \<open>A failed AutoML job and a completed tuning job, each seen at the first query.\<close>

theorem c5_witness:
  "py_watch 7 (always (automl ''Failed'' ''Failed'')) ''job''
     = Returned (automl ''Failed'' ''Failed'') [Query ''job'', print_status (automl ''Failed'' ''Failed'')]
   \<and> queries [Query ''job'', print_status (automl ''Failed'' ''Failed'')] = 1
   \<and> sleeps [Query ''job'', print_status (automl ''Failed'' ''Failed'')] = 0
   \<and> r_watch 7 (always (tuning ''Completed'' 2 0 0)) ''tuning-job'' ''job''
     = Returned (tuning ''Completed'' 2 0 0) ([Query ''tuning-job''] @ message_name ''job'')
   \<and> queries ([Query ''tuning-job''] @ message_name ''job'') = 1
   \<and> sleeps ([Query ''tuning-job''] @ message_name ''job'') = 0"
  using c5_terminal_first_query
    [of "always (automl ''Failed'' ''Failed'')" "automl ''Failed'' ''Failed''" 7 "''job''"
        "always (tuning ''Completed'' 2 0 0)" "tuning ''Completed'' 2 0 0" "''tuning-job''" "''job''"]
  by (simp add: always_def automl_def tuning_def)

subsection \<open>C6: one sleep of 60 seconds before every further query\<close>




subsection \<open>C7: the result and the log lines\<close>

text \<open>
  The claim as written fails in the Python watcher: a snapshot with the secondary status
  \<open>Failed\<close> ends the run and is its result even when its primary status is not terminal.
\<close>

theorem c7_counterexample:
  "py_watch 5 (script [Inr (automl ''InProgress'' ''AnalyzingData''),
                       Inr (automl ''InProgress'' ''Failed'')]) ''job''
     = Returned (automl ''InProgress'' ''Failed'')
         [Query ''job'', Print ''InProgress - AnalyzingData'', Sleep 60, Query ''job'',
          Print ''InProgress - Failed'']
   \<and> \<not> spec_terminal (AutoMLJobStatus (automl ''InProgress'' ''Failed''))"
  by (simp add: spec_terminal_def automl_def py_watch_def script_def describe_auto_ml_job_def
      count_simps py_continue_def print_status_def eval_nat_numeral)

text \<open>
  C7 (amended). The result of the watch operation is the snapshot fetched last, which is
  terminal or, for the Python watcher, has the secondary status \<open>Failed\<close>; and every
  intermediate snapshot fetched along the way has been reported to the caller by log
  lines.
  First conjunct (Python): let the queries be answered by the snapshots \<open>ss\<close>, all but the
  last non-terminal with a secondary status other than \<open>Failed\<close>, the last with primary
  status \<open>Completed\<close> or secondary status \<open>Failed\<close>, and let the fuel allow the iterations.
  Then the run returns the last snapshot, its trace is the one written out in the
  statement, event by event, and the line \<open>status - secondary status\<close> of every snapshot
  fetched is in it.
  Second conjunct (Python): every run that returns, whatever the client and the fuel,
  returns a snapshot that is terminal or has the secondary status \<open>Failed\<close>; it is the last
  of the snapshots \<open>us\<close> the client answered, and the trace is the one written out for
  \<open>us\<close>.
  Third and fourth conjunct (R): the same for the R watcher, whose last snapshot is
  \<open>Completed\<close>, with the two status lines of every snapshot but the last, as \<open>cat\<close> is
  given them, in the trace.
\<close>

theorem c7_result_and_log_lines:
  "(ss \<noteq> [] \<and> (\<forall>i<length ss. client i = Inr (ss ! i)) \<and>
    (\<forall>x\<in>set (butlast ss). \<not> spec_terminal (AutoMLJobStatus x) \<and> AutoMLJobSecondaryStatus x \<noteq> ''Failed'') \<and>
    (AutoMLJobStatus (last ss) = ''Completed'' \<or> AutoMLJobSecondaryStatus (last ss) = ''Failed'') \<and>
    length ss \<le> Suc fuel \<longrightarrow>
      py_watch fuel client job_name = Returned (last ss)
       ([Query job_name, Print (AutoMLJobStatus (hd ss) @ '' - '' @ AutoMLJobSecondaryStatus (hd ss))] @
        concat (map (\<lambda>x. [Sleep 60, Query job_name,
                           Print (AutoMLJobStatus x @ '' - '' @ AutoMLJobSecondaryStatus x)]) (tl ss))) \<and>
      (\<forall>x\<in>set ss. Print (AutoMLJobStatus x @ '' - '' @ AutoMLJobSecondaryStatus x) \<in> set (trace_of (py_watch fuel client job_name))))
   \<and>
   (py_watch fuel client job_name = Returned t tr \<longrightarrow>
      (spec_terminal (AutoMLJobStatus t) \<or> AutoMLJobSecondaryStatus t = ''Failed'') \<and>
      (\<exists>us. us \<noteq> [] \<and> (\<forall>i<length us. client i = Inr (us ! i)) \<and> t = last us \<and>
         tr = [Query job_name, Print (AutoMLJobStatus (hd us) @ '' - '' @ AutoMLJobSecondaryStatus (hd us))] @
        concat (map (\<lambda>x. [Sleep 60, Query job_name,
                           Print (AutoMLJobStatus x @ '' - '' @ AutoMLJobSecondaryStatus x)]) (tl us))))
   \<and>
   (ts \<noteq> [] \<and> (\<forall>i<length ts. sm i = Inr (ts ! i)) \<and>
    (\<forall>x\<in>set (butlast ts). \<not> spec_terminal (HyperParameterTuningJobStatus x)) \<and>
    HyperParameterTuningJobStatus (last ts) = ''Completed'' \<and>
    length ts \<le> Suc fuel \<longrightarrow>
      r_watch fuel sm tuning_job name = Returned (last ts)
       ([Query tuning_job,
         Cat [Str ''Hyperparameter Tuning Job Name: '', Str name, Str [CHR 0x0A]], Message] @
        concat (map (\<lambda>x. [Cat [Str ''Hyperparameter Tuning Job Status: '',
                                Str (HyperParameterTuningJobStatus x), Str [CHR 0x0A]],
                           Message,
                           Cat [Str ''Succeeded Models:'', Num (Succeeded (ObjectiveStatusCounters x)),
                                Str '' InProgress Models: '', Num (Pending (ObjectiveStatusCounters x)),
                                Str '' Failed Models: '', Num (Failed (ObjectiveStatusCounters x)),
                                Str [CHR 0x0A]],
                           Message,
                           Sleep 60, Query tuning_job]) (butlast ts))) \<and>
      (\<forall>x\<in>set (butlast ts).
         Cat [Str ''Hyperparameter Tuning Job Status: '', Str (HyperParameterTuningJobStatus x),
                   Str [CHR 0x0A]]
           \<in> set (trace_of (r_watch fuel sm tuning_job name)) \<and>
         Cat [Str ''Succeeded Models:'', Num (Succeeded (ObjectiveStatusCounters x)),
                   Str '' InProgress Models: '', Num (Pending (ObjectiveStatusCounters x)),
                   Str '' Failed Models: '', Num (Failed (ObjectiveStatusCounters x)),
                   Str [CHR 0x0A]]
           \<in> set (trace_of (r_watch fuel sm tuning_job name))))
   \<and>
   (r_watch fuel sm tuning_job name = Returned u tr2 \<longrightarrow>
      spec_terminal (HyperParameterTuningJobStatus u) \<and>
      (\<exists>vs. vs \<noteq> [] \<and> (\<forall>i<length vs. sm i = Inr (vs ! i)) \<and> u = last vs \<and>
         tr2 = [Query tuning_job,
         Cat [Str ''Hyperparameter Tuning Job Name: '', Str name, Str [CHR 0x0A]], Message] @
        concat (map (\<lambda>x. [Cat [Str ''Hyperparameter Tuning Job Status: '',
                                Str (HyperParameterTuningJobStatus x), Str [CHR 0x0A]],
                           Message,
                           Cat [Str ''Succeeded Models:'', Num (Succeeded (ObjectiveStatusCounters x)),
                                Str '' InProgress Models: '', Num (Pending (ObjectiveStatusCounters x)),
                                Str '' Failed Models: '', Num (Failed (ObjectiveStatusCounters x)),
                                Str [CHR 0x0A]],
                           Message,
                           Sleep 60, Query tuning_job]) (butlast vs))))"
proof (intro conjI impI)
  assume a: "ss \<noteq> [] \<and> (\<forall>i<length ss. client i = Inr (ss ! i)) \<and>
    (\<forall>x\<in>set (butlast ss). \<not> spec_terminal (AutoMLJobStatus x) \<and> AutoMLJobSecondaryStatus x \<noteq> ''Failed'') \<and>
    (AutoMLJobStatus (last ss) = ''Completed'' \<or> AutoMLJobSecondaryStatus (last ss) = ''Failed'') \<and>
    length ss \<le> Suc fuel"
  then have pre: "\<forall>x\<in>set (butlast ss). py_continue x"
    using py_nonterminal_continue by blast
  have ne: "ss \<noteq> []" using a by simp
  have "\<not> py_continue (last ss)" using a by (simp add: py_exit_iff)
  then have ret: "py_watch fuel client job_name = Returned (last ss) (py_trace job_name ss)"
    using a pre by (intro py_watch_returns) simp_all
  then show "py_watch fuel client job_name = Returned (last ss)
       ([Query job_name, Print (AutoMLJobStatus (hd ss) @ '' - '' @ AutoMLJobSecondaryStatus (hd ss))] @
        concat (map (\<lambda>x. [Sleep 60, Query job_name,
                           Print (AutoMLJobStatus x @ '' - '' @ AutoMLJobSecondaryStatus x)]) (tl ss)))"
    using ne by (simp add: py_trace_literal)
  show "\<forall>x\<in>set ss. Print (AutoMLJobStatus x @ '' - '' @ AutoMLJobSecondaryStatus x) \<in> set (trace_of (py_watch fuel client job_name))"
    using ret print_in_py_trace [of _ ss job_name] by simp
next
  assume "py_watch fuel client job_name = Returned t tr"
  then obtain us where us: "us \<noteq> []" "\<forall>i<length us. client i = Inr (us ! i)"
    "\<not> py_continue (last us)" "t = last us" "tr = py_trace job_name us"
    using py_watch_Returned_shape by blast
  have "AutoMLJobStatus t = ''Completed'' \<or> AutoMLJobSecondaryStatus t = ''Failed''"
    using us(3,4) by (simp add: py_exit_iff)
  then show "spec_terminal (AutoMLJobStatus t) \<or> AutoMLJobSecondaryStatus t = ''Failed''"
    using completed_terminal by blast
  have "tr = [Query job_name, Print (AutoMLJobStatus (hd us) @ '' - '' @ AutoMLJobSecondaryStatus (hd us))] @
        concat (map (\<lambda>x. [Sleep 60, Query job_name,
                           Print (AutoMLJobStatus x @ '' - '' @ AutoMLJobSecondaryStatus x)]) (tl us))"
    using us(1,5) by (simp add: py_trace_literal)
  then show "\<exists>us. us \<noteq> [] \<and> (\<forall>i<length us. client i = Inr (us ! i)) \<and> t = last us \<and>
         tr = [Query job_name, Print (AutoMLJobStatus (hd us) @ '' - '' @ AutoMLJobSecondaryStatus (hd us))] @
        concat (map (\<lambda>x. [Sleep 60, Query job_name,
                           Print (AutoMLJobStatus x @ '' - '' @ AutoMLJobSecondaryStatus x)]) (tl us))"
    using us(1,2,4) by blast
next
  assume a: "ts \<noteq> [] \<and> (\<forall>i<length ts. sm i = Inr (ts ! i)) \<and>
    (\<forall>x\<in>set (butlast ts). \<not> spec_terminal (HyperParameterTuningJobStatus x)) \<and>
    HyperParameterTuningJobStatus (last ts) = ''Completed'' \<and>
    length ts \<le> Suc fuel"
  then have pre: "\<forall>x\<in>set (butlast ts). r_continue x"
    using r_nonterminal_continue by blast
  have "\<not> r_continue (last ts)" using a by (simp add: r_continue_def)
  then have ret: "r_watch fuel sm tuning_job name = Returned (last ts) (r_trace tuning_job name ts)"
    using a pre by (intro r_watch_returns) simp_all
  then show "r_watch fuel sm tuning_job name = Returned (last ts)
       ([Query tuning_job,
         Cat [Str ''Hyperparameter Tuning Job Name: '', Str name, Str [CHR 0x0A]], Message] @
        concat (map (\<lambda>x. [Cat [Str ''Hyperparameter Tuning Job Status: '',
                                Str (HyperParameterTuningJobStatus x), Str [CHR 0x0A]],
                           Message,
                           Cat [Str ''Succeeded Models:'', Num (Succeeded (ObjectiveStatusCounters x)),
                                Str '' InProgress Models: '', Num (Pending (ObjectiveStatusCounters x)),
                                Str '' Failed Models: '', Num (Failed (ObjectiveStatusCounters x)),
                                Str [CHR 0x0A]],
                           Message,
                           Sleep 60, Query tuning_job]) (butlast ts)))"
    by (simp add: r_trace_literal)
  show "\<forall>x\<in>set (butlast ts).
         Cat [Str ''Hyperparameter Tuning Job Status: '', Str (HyperParameterTuningJobStatus x),
                   Str [CHR 0x0A]]
           \<in> set (trace_of (r_watch fuel sm tuning_job name)) \<and>
         Cat [Str ''Succeeded Models:'', Num (Succeeded (ObjectiveStatusCounters x)),
                   Str '' InProgress Models: '', Num (Pending (ObjectiveStatusCounters x)),
                   Str '' Failed Models: '', Num (Failed (ObjectiveStatusCounters x)),
                   Str [CHR 0x0A]]
           \<in> set (trace_of (r_watch fuel sm tuning_job name))"
    using ret status_lines_in_r_trace [of _ ts tuning_job name] by simp
next
  assume "r_watch fuel sm tuning_job name = Returned u tr2"
  then obtain vs where vs: "vs \<noteq> []" "\<forall>i<length vs. sm i = Inr (vs ! i)"
    "\<not> r_continue (last vs)" "u = last vs" "tr2 = r_trace tuning_job name vs"
    using r_watch_Returned_shape by blast
  have "HyperParameterTuningJobStatus u = ''Completed''"
    using vs(3,4) by (simp add: r_continue_def)
  then show "spec_terminal (HyperParameterTuningJobStatus u)" by (rule completed_terminal)
  have "tr2 = [Query tuning_job,
         Cat [Str ''Hyperparameter Tuning Job Name: '', Str name, Str [CHR 0x0A]], Message] @
        concat (map (\<lambda>x. [Cat [Str ''Hyperparameter Tuning Job Status: '',
                                Str (HyperParameterTuningJobStatus x), Str [CHR 0x0A]],
                           Message,
                           Cat [Str ''Succeeded Models:'', Num (Succeeded (ObjectiveStatusCounters x)),
                                Str '' InProgress Models: '', Num (Pending (ObjectiveStatusCounters x)),
                                Str '' Failed Models: '', Num (Failed (ObjectiveStatusCounters x)),
                                Str [CHR 0x0A]],
                           Message,
                           Sleep 60, Query tuning_job]) (butlast vs))"
    using vs(5) by (simp add: r_trace_literal)
  then show "\<exists>vs. vs \<noteq> [] \<and> (\<forall>i<length vs. sm i = Inr (vs ! i)) \<and> u = last vs \<and>
         tr2 = [Query tuning_job,
         Cat [Str ''Hyperparameter Tuning Job Name: '', Str name, Str [CHR 0x0A]], Message] @
        concat (map (\<lambda>x. [Cat [Str ''Hyperparameter Tuning Job Status: '',
                                Str (HyperParameterTuningJobStatus x), Str [CHR 0x0A]],
                           Message,
                           Cat [Str ''Succeeded Models:'', Num (Succeeded (ObjectiveStatusCounters x)),
                                Str '' InProgress Models: '', Num (Pending (ObjectiveStatusCounters x)),
                                Str '' Failed Models: '', Num (Failed (ObjectiveStatusCounters x)),
                                Str [CHR 0x0A]],
                           Message,
                           Sleep 60, Query tuning_job]) (butlast vs))"
    using vs(1,2,4) by blast
qed

text \<open>Both watchers on a job that completes at the third call, with every event of the
  two traces.\<close>

theorem c7_witness:
  "py_watch 2 (script [Inr (automl ''InProgress'' ''AnalyzingData''),
                       Inr (automl ''InProgress'' ''ModelTuning''),
                       Inr (automl ''Completed'' ''Completed'')]) ''job''
     = Returned (automl ''Completed'' ''Completed'')
         [Query ''job'', Print ''InProgress - AnalyzingData'',
          Sleep 60, Query ''job'', Print ''InProgress - ModelTuning'',
          Sleep 60, Query ''job'', Print ''Completed - Completed'']
   \<and>
   r_watch 2 (script [Inr (tuning ''InProgress'' 0 2 0), Inr (tuning ''InProgress'' 1 1 0),
                      Inr (tuning ''Completed'' 2 0 0)]) ''tuning-job'' ''job''
     = Returned (tuning ''Completed'' 2 0 0)
         [Query ''tuning-job'',
          Cat [Str ''Hyperparameter Tuning Job Name: '', Str ''job'', Str [CHR 0x0A]], Message,
          Cat [Str ''Hyperparameter Tuning Job Status: '', Str ''InProgress'', Str [CHR 0x0A]], Message,
          Cat [Str ''Succeeded Models:'', Num 0, Str '' InProgress Models: '', Num 2,
               Str '' Failed Models: '', Num 0, Str [CHR 0x0A]], Message,
          Sleep 60, Query ''tuning-job'',
          Cat [Str ''Hyperparameter Tuning Job Status: '', Str ''InProgress'', Str [CHR 0x0A]], Message,
          Cat [Str ''Succeeded Models:'', Num 1, Str '' InProgress Models: '', Num 1,
               Str '' Failed Models: '', Num 0, Str [CHR 0x0A]], Message,
          Sleep 60, Query ''tuning-job'']"
proof -
  let ?ss = "[automl ''InProgress'' ''AnalyzingData'', automl ''InProgress'' ''ModelTuning'',
              automl ''Completed'' ''Completed'']"
  let ?ts = "[tuning ''InProgress'' 0 2 0, tuning ''InProgress'' 1 1 0, tuning ''Completed'' 2 0 0]"
  have a: "?ss \<noteq> [] \<and> (\<forall>i<length ?ss. script (map Inr ?ss) i = Inr (?ss ! i)) \<and>
    (\<forall>x\<in>set (butlast ?ss). \<not> spec_terminal (AutoMLJobStatus x) \<and> AutoMLJobSecondaryStatus x \<noteq> ''Failed'') \<and>
    (AutoMLJobStatus (last ?ss) = ''Completed'' \<or> AutoMLJobSecondaryStatus (last ?ss) = ''Failed'') \<and>
    length ?ss \<le> Suc 2"
    using script_map_Inr [of _ ?ss] by (simp add: spec_terminal_def automl_def)
  have b: "?ts \<noteq> [] \<and> (\<forall>i<length ?ts. script (map Inr ?ts) i = Inr (?ts ! i)) \<and>
    (\<forall>x\<in>set (butlast ?ts). \<not> spec_terminal (HyperParameterTuningJobStatus x)) \<and>
    HyperParameterTuningJobStatus (last ?ts) = ''Completed'' \<and>
    length ?ts \<le> Suc 2"
    using script_map_Inr [of _ ?ts] by (simp add: spec_terminal_def tuning_def)
  note inst = c7_result_and_log_lines
    [of ?ss "script (map Inr ?ss)" 2 "''job''" _ _ ?ts "script (map Inr ?ts)" "''tuning-job''" "''job''"]
  note py = inst [THEN conjunct1, THEN mp, OF a, THEN conjunct1]
  note r = inst [THEN conjunct2, THEN conjunct2, THEN conjunct1, THEN mp, OF b, THEN conjunct1]
  have py': "py_watch 2 (script [Inr (automl ''InProgress'' ''AnalyzingData''),
                       Inr (automl ''InProgress'' ''ModelTuning''),
                       Inr (automl ''Completed'' ''Completed'')]) ''job''
     = Returned (automl ''Completed'' ''Completed'')
         [Query ''job'', Print ''InProgress - AnalyzingData'',
          Sleep 60, Query ''job'', Print ''InProgress - ModelTuning'',
          Sleep 60, Query ''job'', Print ''Completed - Completed'']"
    using py by (simp add: automl_def)
  have r': "r_watch 2 (script [Inr (tuning ''InProgress'' 0 2 0), Inr (tuning ''InProgress'' 1 1 0),
                      Inr (tuning ''Completed'' 2 0 0)]) ''tuning-job'' ''job''
     = Returned (tuning ''Completed'' 2 0 0)
         [Query ''tuning-job'',
          Cat [Str ''Hyperparameter Tuning Job Name: '', Str ''job'', Str [CHR 0x0A]], Message,
          Cat [Str ''Hyperparameter Tuning Job Status: '', Str ''InProgress'', Str [CHR 0x0A]], Message,
          Cat [Str ''Succeeded Models:'', Num 0, Str '' InProgress Models: '', Num 2,
               Str '' Failed Models: '', Num 0, Str [CHR 0x0A]], Message,
          Sleep 60, Query ''tuning-job'',
          Cat [Str ''Hyperparameter Tuning Job Status: '', Str ''InProgress'', Str [CHR 0x0A]], Message,
          Cat [Str ''Succeeded Models:'', Num 1, Str '' InProgress Models: '', Num 1,
               Str '' Failed Models: '', Num 0, Str [CHR 0x0A]], Message,
          Sleep 60, Query ''tuning-job'']"
    using r by (simp add: tuning_def)
  show ?thesis by (rule conjI [OF py' r'])
qed

subsection \<open>C8: no bound on the number of polls\<close>

text \<open>
  The claim as written fails in the Python watcher: it returns after a single query whose
  snapshot is not terminal but has the secondary status \<open>Failed\<close>, before any terminal
  snapshot was seen.
\<close>

theorem c8_counterexample:
  "\<not> spec_terminal (AutoMLJobStatus (automl ''InProgress'' ''Failed''))
   \<and> always (automl ''InProgress'' ''Failed'') 0 = Inr (automl ''InProgress'' ''Failed'')
   \<and> py_watch 0 (always (automl ''InProgress'' ''Failed'')) ''job''
       = Returned (automl ''InProgress'' ''Failed'') [Query ''job'', Print ''InProgress - Failed'']
   \<and> queries [Query ''job'', Print ''InProgress - Failed''] = 1"
  by (simp add: spec_terminal_def automl_def py_watch_def always_def describe_auto_ml_job_def
      count_simps py_continue_def print_status_def)

text \<open>
  C8 (amended). The watcher enforces no timeout and no maximum number of polls: for every
  \<open>n\<close>, if the first \<open>n\<close> queries all return non-terminal snapshots (for the Python watcher:
  with a secondary status other than \<open>Failed\<close>), the watcher has not returned after those
  \<open>n\<close> queries. Here \<open>ss\<close> are the snapshots answered to the first \<open>n = length ss\<close> queries.
  Whatever the fuel, a run that returns has made more than \<open>n\<close> queries; and the run with
  fuel for \<open>n - 1\<close> iterations has made exactly the \<open>n\<close> queries and is still polling. The
  first conjunct is the Python watcher, the second the R watcher.
\<close>

theorem c8_no_return_while_non_terminal:
  "((\<forall>i<length ss. client i = Inr (ss ! i)) \<and>
    (\<forall>x\<in>set ss. \<not> spec_terminal (AutoMLJobStatus x) \<and> AutoMLJobSecondaryStatus x \<noteq> ''Failed'') \<longrightarrow>
      (\<forall>fuel t tr. py_watch fuel client job_name = Returned t tr \<longrightarrow> length ss < queries tr) \<and>
      (ss \<noteq> [] \<longrightarrow>
         py_watch (length ss - 1) client job_name = Polling (last ss) (py_trace job_name ss) \<and>
         queries (py_trace job_name ss) = length ss))
   \<and>
   ((\<forall>i<length ts. sm i = Inr (ts ! i)) \<and>
    (\<forall>x\<in>set ts. \<not> spec_terminal (HyperParameterTuningJobStatus x)) \<longrightarrow>
      (\<forall>fuel u tr. r_watch fuel sm tuning_job name = Returned u tr \<longrightarrow> length ts < queries tr) \<and>
      (ts \<noteq> [] \<longrightarrow>
         r_watch (length ts - 1) sm tuning_job name = Polling (last ts) (r_trace tuning_job name ts) \<and>
         queries (r_trace tuning_job name ts) = length ts))"
proof (intro conjI impI allI)
  fix fuel t tr
  assume a: "(\<forall>i<length ss. client i = Inr (ss ! i)) \<and>
    (\<forall>x\<in>set ss. \<not> spec_terminal (AutoMLJobStatus x) \<and> AutoMLJobSecondaryStatus x \<noteq> ''Failed'')"
    and ret: "py_watch fuel client job_name = Returned t tr"
  from ret obtain ss' where ss': "ss' \<noteq> []" "\<forall>i<length ss'. client i = Inr (ss' ! i)"
    "\<not> py_continue (last ss')" "tr = py_trace job_name ss'"
    using py_watch_Returned_shape by blast
  have "length ss < length ss'"
  proof (rule ccontr)
    assume "\<not> length ss < length ss'"
    moreover have "0 < length ss'" using ss'(1) by simp
    ultimately have k: "length ss' - 1 < length ss" "length ss' - 1 < length ss'" by arith+
    have "client (length ss' - 1) = Inr (ss' ! (length ss' - 1))" using ss'(2) k(2) by blast
    moreover have "client (length ss' - 1) = Inr (ss ! (length ss' - 1))" using a k(1) by blast
    ultimately have "last ss' = ss ! (length ss' - 1)" using ss'(1) by (simp add: last_conv_nth)
    then have "last ss' \<in> set ss" using k(1) by simp
    then have "py_continue (last ss')" using a py_nonterminal_continue by blast
    then show False using ss'(3) by simp
  qed
  then show "length ss < queries tr" using ss'(4) by (simp add: queries_py_trace)
next
  assume a: "(\<forall>i<length ss. client i = Inr (ss ! i)) \<and>
    (\<forall>x\<in>set ss. \<not> spec_terminal (AutoMLJobStatus x) \<and> AutoMLJobSecondaryStatus x \<noteq> ''Failed'')"
    and ne: "ss \<noteq> []"
  have all: "\<forall>x\<in>set ss. py_continue x" using a py_nonterminal_continue by blast
  then have "\<forall>x\<in>set (butlast ss). py_continue x" by (meson in_set_butlastD)
  then have "py_watch (length ss - 1 + 0) client job_name =
      py_loop 0 client job_name (last ss) (py_trace job_name ss)"
    using a ne by (intro py_watch_steps) simp_all
  moreover have "py_continue (last ss)" using all ne by simp
  ultimately show "py_watch (length ss - 1) client job_name = Polling (last ss) (py_trace job_name ss)"
    by simp
  show "queries (py_trace job_name ss) = length ss" by (rule queries_py_trace)
next
  fix fuel u tr
  assume a: "(\<forall>i<length ts. sm i = Inr (ts ! i)) \<and>
    (\<forall>x\<in>set ts. \<not> spec_terminal (HyperParameterTuningJobStatus x))"
    and ret: "r_watch fuel sm tuning_job name = Returned u tr"
  from ret obtain ts' where ts': "ts' \<noteq> []" "\<forall>i<length ts'. sm i = Inr (ts' ! i)"
    "\<not> r_continue (last ts')" "tr = r_trace tuning_job name ts'"
    using r_watch_Returned_shape by blast
  have "length ts < length ts'"
  proof (rule ccontr)
    assume "\<not> length ts < length ts'"
    moreover have "0 < length ts'" using ts'(1) by simp
    ultimately have k: "length ts' - 1 < length ts" "length ts' - 1 < length ts'" by arith+
    have "sm (length ts' - 1) = Inr (ts' ! (length ts' - 1))" using ts'(2) k(2) by blast
    moreover have "sm (length ts' - 1) = Inr (ts ! (length ts' - 1))" using a k(1) by blast
    ultimately have "last ts' = ts ! (length ts' - 1)" using ts'(1) by (simp add: last_conv_nth)
    then have "last ts' \<in> set ts" using k(1) by simp
    then have "r_continue (last ts')" using a r_nonterminal_continue by blast
    then show False using ts'(3) by simp
  qed
  then show "length ts < queries tr" using ts'(1,4) by (simp add: queries_r_trace)
next
  assume a: "(\<forall>i<length ts. sm i = Inr (ts ! i)) \<and>
    (\<forall>x\<in>set ts. \<not> spec_terminal (HyperParameterTuningJobStatus x))"
    and ne: "ts \<noteq> []"
  have all: "\<forall>x\<in>set ts. r_continue x" using a r_nonterminal_continue by blast
  then have "\<forall>x\<in>set (butlast ts). r_continue x" by (meson in_set_butlastD)
  then have "r_watch (length ts - 1 + 0) sm tuning_job name =
      r_loop 0 sm tuning_job (last ts) (r_trace tuning_job name ts)"
    using a ne by (intro r_watch_steps) simp_all
  moreover have "r_continue (last ts)" using all ne by simp
  ultimately show "r_watch (length ts - 1) sm tuning_job name = Polling (last ts) (r_trace tuning_job name ts)"
    by simp
  show "queries (r_trace tuning_job name ts) = length ts" using ne by (rule queries_r_trace)
qed

text \<open>Two snapshots in progress, then completion: neither watcher has returned after the
  first two queries, and the run that returns has made three.\<close>

theorem c8_witness:
  "py_watch 1 (script [Inr (automl ''InProgress'' ''AnalyzingData''),
                       Inr (automl ''InProgress'' ''ModelTuning''),
                       Inr (automl ''Completed'' ''Completed'')]) ''job''
     = Polling (automl ''InProgress'' ''ModelTuning'')
         (py_trace ''job'' [automl ''InProgress'' ''AnalyzingData'', automl ''InProgress'' ''ModelTuning''])
   \<and> 2 < queries (trace_of (py_watch 2 (script [Inr (automl ''InProgress'' ''AnalyzingData''),
                       Inr (automl ''InProgress'' ''ModelTuning''),
                       Inr (automl ''Completed'' ''Completed'')]) ''job''))
   \<and> r_watch 1 (script [Inr (tuning ''InProgress'' 0 2 0), Inr (tuning ''InProgress'' 1 1 0),
                        Inr (tuning ''Completed'' 2 0 0)]) ''tuning-job'' ''job''
     = Polling (tuning ''InProgress'' 1 1 0)
         (r_trace ''tuning-job'' ''job'' [tuning ''InProgress'' 0 2 0, tuning ''InProgress'' 1 1 0])
   \<and> 2 < queries (trace_of (r_watch 2 (script [Inr (tuning ''InProgress'' 0 2 0),
                        Inr (tuning ''InProgress'' 1 1 0),
                        Inr (tuning ''Completed'' 2 0 0)]) ''tuning-job'' ''job''))"
proof -
  let ?ss = "[automl ''InProgress'' ''AnalyzingData'', automl ''InProgress'' ''ModelTuning'']"
  let ?client = "script [Inr (automl ''InProgress'' ''AnalyzingData''),
                       Inr (automl ''InProgress'' ''ModelTuning''),
                       Inr (automl ''Completed'' ''Completed'')]"
  let ?ts = "[tuning ''InProgress'' 0 2 0, tuning ''InProgress'' 1 1 0]"
  let ?sm = "script [Inr (tuning ''InProgress'' 0 2 0), Inr (tuning ''InProgress'' 1 1 0),
                        Inr (tuning ''Completed'' 2 0 0)]"
  have a: "(\<forall>i<length ?ss. ?client i = Inr (?ss ! i)) \<and>
    (\<forall>x\<in>set ?ss. \<not> spec_terminal (AutoMLJobStatus x) \<and> AutoMLJobSecondaryStatus x \<noteq> ''Failed'')"
    using script_map_Inr_append [of _ ?ss "[Inr (automl ''Completed'' ''Completed'')]"]
    by (simp add: spec_terminal_def automl_def)
  have b: "(\<forall>i<length ?ts. ?sm i = Inr (?ts ! i)) \<and>
    (\<forall>x\<in>set ?ts. \<not> spec_terminal (HyperParameterTuningJobStatus x))"
    using script_map_Inr_append [of _ ?ts "[Inr (tuning ''Completed'' 2 0 0)]"]
    by (simp add: spec_terminal_def tuning_def)
  obtain t tr where py: "py_watch 2 ?client ''job'' = Returned t tr"
    by (simp add: automl_def py_watch_def script_def describe_auto_ml_job_def
        count_simps py_continue_def print_status_def eval_nat_numeral)
  obtain u tr2 where r: "r_watch 2 ?sm ''tuning-job'' ''job'' = Returned u tr2"
    by (simp add: tuning_def r_watch_def script_def describe_hyper_parameter_tuning_job_def
        count_simps r_continue_def queries_message_name queries_message_status eval_nat_numeral)
  note inst = c8_no_return_while_non_terminal [of ?ss ?client "''job''" ?ts ?sm "''tuning-job''" "''job''"]
  note p = inst [THEN conjunct1, THEN mp, OF a]
  note q = inst [THEN conjunct2, THEN mp, OF b]
  have "length ?ss < queries tr" using p py by blast
  then have p1: "2 < queries (trace_of (py_watch 2 ?client ''job''))" using py by simp
  have "length ?ts < queries tr2" using q r by blast
  then have q1: "2 < queries (trace_of (r_watch 2 ?sm ''tuning-job'' ''job''))" using r by simp
  have p2: "py_watch 1 ?client ''job'' = Polling (automl ''InProgress'' ''ModelTuning'') (py_trace ''job'' ?ss)"
    using p by simp
  have q2: "r_watch 1 ?sm ''tuning-job'' ''job'' = Polling (tuning ''InProgress'' 1 1 0) (r_trace ''tuning-job'' ''job'' ?ts)"
    using q by simp
  show ?thesis using p1 p2 q1 q2 by (intro conjI)
qed

subsection \<open>C9: the condition of the Python loop\<close>



subsection \<open>C10: the R watcher ends only on Completed\<close>

text \<open>
  C10. The R tuning-job watcher terminates if and only if some query eventually returns a
  snapshot with \<open>HyperParameterTuningJobStatus\<close> equal to \<open>Completed\<close>. Here every call is
  answered, by the snapshots \<open>snaps 0, snaps 1, ...\<close>. First conjunct: some amount of fuel
  lets the run return if and only if some snapshot of the sequence is \<open>Completed\<close>. Second
  conjunct: if no snapshot is \<open>Completed\<close> (they may all be \<open>Failed\<close> or \<open>Stopped\<close>), the
  watcher queries forever: whatever the fuel, the run uses all of it, has then made one
  query more than the fuel, slept as often as the fuel, and is still polling.
\<close>

theorem c10_r_watcher_returns_iff_completed:
  "((\<exists>fuel t tr. r_watch fuel (answers snaps) tuning_job name = Returned t tr) \<longleftrightarrow>
    (\<exists>k. HyperParameterTuningJobStatus (snaps k) = ''Completed''))
   \<and>
   ((\<forall>k. HyperParameterTuningJobStatus (snaps k) \<noteq> ''Completed'') \<longrightarrow>
    (\<forall>fuel. r_watch fuel (answers snaps) tuning_job name =
              Polling (snaps fuel) (r_trace tuning_job name (map snaps [0..<Suc fuel])) \<and>
            queries (r_trace tuning_job name (map snaps [0..<Suc fuel])) = Suc fuel \<and>
            sleeps (r_trace tuning_job name (map snaps [0..<Suc fuel])) = fuel))"
proof (intro conjI iffI impI allI)
  assume "\<exists>fuel t tr. r_watch fuel (answers snaps) tuning_job name = Returned t tr"
  then obtain fuel t tr where ret: "r_watch fuel (answers snaps) tuning_job name = Returned t tr"
    by blast
  have first: "answers snaps 0 = Inr (snaps 0)" by (simp add: answers_def)
  have "r_loop fuel (answers snaps) tuning_job (snaps 0) ([Query tuning_job] @ message_name name)
      = Returned t tr"
    using ret r_watch_first [where sm="answers snaps", OF first] by simp
  then have "\<not> r_continue t \<and> (t = snaps 0 \<or> (\<exists>k. answers snaps k = Inr t))"
    by (rule r_loop_Returned)
  then obtain k where "t = snaps k" and "\<not> r_continue t"
    by (auto simp add: answers_def)
  then show "\<exists>k. HyperParameterTuningJobStatus (snaps k) = ''Completed''"
    by (auto simp add: r_continue_def)
next
  assume "\<exists>k. HyperParameterTuningJobStatus (snaps k) = ''Completed''"
  then have ex: "\<exists>k. \<not> r_continue (snaps k)" by (simp add: r_continue_def)
  define n where "n = (LEAST k. \<not> r_continue (snaps k))"
  have "\<not> r_continue (snaps n)" unfolding n_def using ex by (rule LeastI_ex)
  moreover have "\<forall>k<n. r_continue (snaps k)"
    unfolding n_def using not_less_Least by blast
  ultimately have "r_watch n (answers snaps) tuning_job name =
      Returned (snaps n) (r_trace tuning_job name (map snaps [0..<Suc n]))"
    by (rule r_watch_answers_returns)
  then show "\<exists>fuel t tr. r_watch fuel (answers snaps) tuning_job name = Returned t tr"
    by blast
next
  fix fuel
  assume "\<forall>k. HyperParameterTuningJobStatus (snaps k) \<noteq> ''Completed''"
  then have "\<forall>k\<le>fuel. r_continue (snaps k)" by (simp add: r_continue_def)
  then show "r_watch fuel (answers snaps) tuning_job name =
      Polling (snaps fuel) (r_trace tuning_job name (map snaps [0..<Suc fuel]))"
    by (rule r_watch_answers_polling)
  show "queries (r_trace tuning_job name (map snaps [0..<Suc fuel])) = Suc fuel"
    using queries_r_trace [of "map snaps [0..<Suc fuel]" tuning_job name] by simp
  show "sleeps (r_trace tuning_job name (map snaps [0..<Suc fuel])) = fuel"
    using sleeps_r_trace [of tuning_job name "map snaps [0..<Suc fuel]"] by simp
qed

text \<open>A tuning job that completes at the third call is returned; a tuning job that has
  failed for good is polled as long as the fuel lasts.\<close>

theorem c10_witness:
  "(\<exists>fuel t tr. r_watch fuel (answers (completes_at 2)) ''tuning-job'' ''job'' = Returned t tr)
   \<and> r_watch 5 (answers (steady (tuning ''Failed'' 0 0 2))) ''tuning-job'' ''job'' =
       Polling (steady (tuning ''Failed'' 0 0 2) 5)
         (r_trace ''tuning-job'' ''job'' (map (steady (tuning ''Failed'' 0 0 2)) [0..<Suc 5]))
   \<and> queries (r_trace ''tuning-job'' ''job'' (map (steady (tuning ''Failed'' 0 0 2)) [0..<Suc 5])) = Suc 5
   \<and> sleeps (r_trace ''tuning-job'' ''job'' (map (steady (tuning ''Failed'' 0 0 2)) [0..<Suc 5])) = 5"
proof -
  have a: "\<exists>k. HyperParameterTuningJobStatus (completes_at 2 k) = ''Completed''"
    by (rule exI [of _ 2]) (simp add: completes_at_def tuning_def)
  have b: "\<forall>k. HyperParameterTuningJobStatus (steady (tuning ''Failed'' 0 0 2) k) \<noteq> ''Completed''"
    by (simp add: steady_def tuning_def)
  note returns =
    c10_r_watcher_returns_iff_completed [of "completes_at 2" "''tuning-job''" "''job''",
      THEN conjunct1, THEN iffD2, OF a]
  note polls =
    c10_r_watcher_returns_iff_completed [of "steady (tuning ''Failed'' 0 0 2)" "''tuning-job''" "''job''",
      THEN conjunct2, THEN mp, OF b, THEN spec, of 5]
  show ?thesis by (rule conjI [OF returns polls])
qed

end
